theory Spec2Isabelle
  imports Main
begin

section \<open>JavaScript values\<close>

text \<open>
  The program is untyped JavaScript working on the result of \<^verbatim>\<open>JSON.parse\<close> and on objects
  it builds itself, so the embedding is untyped as well: every value is a \<open>jsval\<close>.
  An object is the list of its own properties in insertion order; the first entry for a key
  is the property's value.

  Conventions of the embedding:
  \<^item> a string is a list of 8-bit characters; the text the program handles is taken to be
    ASCII, except for the ellipsis marker U+2026 of \<^verbatim>\<open>summarizePackages\<close>, which is written as
    the three bytes of its UTF-8 encoding. \<^verbatim>\<open>trim\<close> and \<^verbatim>\<open>toLowerCase\<close> are the ASCII
    parts of the JavaScript functions;
  \<^item> numbers are the integers that JavaScript holds exactly and prints digit by digit, those
    between \<open>-(2^53 - 1)\<close> and \<open>2^53 - 1\<close> (\<^verbatim>\<open>NaN\<close>, fractions and exponents do not occur);
  \<^item> values are trees, as \<^verbatim>\<open>JSON.parse\<close> builds them: no two places of a value share
    an array or an object;
  \<^item> \<^verbatim>\<open>console.error\<close>, \<^verbatim>\<open>console.warn\<close> and \<^verbatim>\<open>console.log\<close> are left out.
\<close>

datatype jsval =
    JUndefined
  | JNull
  | JBool bool
  | JNum int
  | JStr string
  | JArr "jsval list"
  | JObj "(string \<times> jsval) list"

text \<open>A thrown value: the error's class and its message.\<close>

datatype js_error =
    TypeError string
  | SyntaxError string
  | Error string

fun message :: "js_error \<Rightarrow> string" where
  "message (TypeError m) = m"
| "message (SyntaxError m) = m"
| "message (Error m) = m"

type_synonym 'a result = "js_error + 'a"

definition bind :: "'a result \<Rightarrow> ('a \<Rightarrow> 'b result) \<Rightarrow> 'b result" where
  "bind r f = (case r of Inl e \<Rightarrow> Inl e | Inr v \<Rightarrow> f v)"

text \<open>\<^verbatim>\<open>xs.map(f)\<close> where \<open>f\<close> may throw: the first throw ends the loop.\<close>

fun mapM :: "('a \<Rightarrow> 'b result) \<Rightarrow> 'a list \<Rightarrow> 'b list result" where
  "mapM f [] = Inr []"
| "mapM f (x # xs) = bind (f x) (\<lambda>y. bind (mapM f xs) (\<lambda>ys. Inr (y # ys)))"

text \<open>\<^verbatim>\<open>Boolean(v)\<close>, the truthiness that \<^verbatim>\<open>!v\<close>, \<^verbatim>\<open>a || b\<close> and \<^verbatim>\<open>if (v)\<close> test.\<close>

fun truthy :: "jsval \<Rightarrow> bool" where
  "truthy JUndefined = False"
| "truthy JNull = False"
| "truthy (JBool b) = b"
| "truthy (JNum n) = (n \<noteq> 0)"
| "truthy (JStr s) = (s \<noteq> [])"
| "truthy (JArr _) = True"
| "truthy (JObj _) = True"

definition js_or :: "jsval \<Rightarrow> jsval \<Rightarrow> jsval" where
  "js_or a b = (if truthy a then a else b)"

fun isArray :: "jsval \<Rightarrow> bool" where
  "isArray (JArr _) = True"
| "isArray _ = False"

fun elems :: "jsval \<Rightarrow> jsval list" where
  "elems (JArr xs) = xs"
| "elems _ = []"

fun nullish :: "jsval \<Rightarrow> bool" where
  "nullish JUndefined = True"
| "nullish JNull = True"
| "nullish _ = False"

fun lookup :: "(string \<times> jsval) list \<Rightarrow> string \<Rightarrow> jsval" where
  "lookup [] k = JUndefined"
| "lookup ((k', v) # fs) k = (if k' = k then v else lookup fs k)"

text \<open>
  \<^verbatim>\<open>v.k\<close> for a property name \<open>k\<close> written in the source. None of the names the program
  reads is inherited from a prototype or is \<^verbatim>\<open>length\<close>, so only an object has them; reading
  a property of \<^verbatim>\<open>null\<close> or \<^verbatim>\<open>undefined\<close> throws.
\<close>

fun get :: "jsval \<Rightarrow> string \<Rightarrow> jsval result" where
  "get JUndefined k =
     Inl (TypeError (''Cannot read properties of undefined (reading '' @ [CHR 0x27] @ k @ [CHR 0x27] @ '')''))"
| "get JNull k =
     Inl (TypeError (''Cannot read properties of null (reading '' @ [CHR 0x27] @ k @ [CHR 0x27] @ '')''))"
| "get (JObj fs) k = Inr (lookup fs k)"
| "get _ k = Inr JUndefined"

text \<open>\<^verbatim>\<open>v?.k\<close>: \<^verbatim>\<open>undefined\<close> when \<open>v\<close> is \<^verbatim>\<open>null\<close> or \<^verbatim>\<open>undefined\<close>.\<close>

fun getq :: "jsval \<Rightarrow> string \<Rightarrow> jsval" where
  "getq (JObj fs) k = lookup fs k"
| "getq _ k = JUndefined"

fun nth_or_undefined :: "jsval list \<Rightarrow> nat \<Rightarrow> jsval" where
  "nth_or_undefined [] n = JUndefined"
| "nth_or_undefined (x # xs) 0 = x"
| "nth_or_undefined (x # xs) (Suc n) = nth_or_undefined xs n"

subsection \<open>Strings\<close>

fun digit_char :: "nat \<Rightarrow> char" where
  "digit_char n = char_of (48 + n)"

fun show_nat :: "nat \<Rightarrow> string" where
  "show_nat n = (if n < 10 then [digit_char n] else show_nat (n div 10) @ [digit_char (n mod 10)])"

definition show_int :: "int \<Rightarrow> string" where
  "show_int i = (if i < 0 then CHR ''-'' # show_nat (nat (- i)) else show_nat (nat i))"

fun js_join :: "string \<Rightarrow> string list \<Rightarrow> string" where
  "js_join sep [] = []"
| "js_join sep [x] = x"
| "js_join sep (x # y # ys) = x @ sep @ js_join sep (y # ys)"

text \<open>
  \<^verbatim>\<open>String(v)\<close>, which a template literal, \<^verbatim>\<open>Array.prototype.join\<close> and a computed property
  key apply. An array is its elements joined by a comma, \<^verbatim>\<open>null\<close> and \<^verbatim>\<open>undefined\<close>
  elements giving the empty string. The conversion throws a \<^verbatim>\<open>TypeError\<close> on an object with an
  own property \<^verbatim>\<open>toString\<close> (a value out of \<^verbatim>\<open>JSON.parse\<close> is never callable, and the inherited
  \<^verbatim>\<open>valueOf\<close> returns the object), and on an array holding such an object. \<open>toStringThrows\<close>
  says when it throws, \<open>js_to_string\<close> is the string when it does not, and \<open>js_String\<close> is the
  conversion with its throw.
\<close>

fun toStringThrows :: "jsval \<Rightarrow> bool" where
  "toStringThrows (JObj props) = (''toString'' \<in> set (map fst props))"
| "toStringThrows (JArr xs) = list_ex toStringThrows xs"
| "toStringThrows _ = False"

fun js_to_string :: "jsval \<Rightarrow> string" where
  "js_to_string JUndefined = ''undefined''"
| "js_to_string JNull = ''null''"
| "js_to_string (JBool b) = (if b then ''true'' else ''false'')"
| "js_to_string (JNum n) = show_int n"
| "js_to_string (JStr s) = s"
| "js_to_string (JArr xs) =
     js_join '','' (map (\<lambda>x. if x = JUndefined \<or> x = JNull then [] else js_to_string x) xs)"
| "js_to_string (JObj fs) = ''[object Object]''"

definition js_String :: "jsval \<Rightarrow> string result" where
  "js_String v =
     (if toStringThrows v then Inl (TypeError ''Cannot convert object to primitive value'')
      else Inr (js_to_string v))"

text \<open>\<^verbatim>\<open>xs.join(sep)\<close>\<close>

definition join_vals :: "string \<Rightarrow> jsval list \<Rightarrow> string result" where
  "join_vals sep xs =
     bind (mapM (\<lambda>x. if nullish x then Inr [] else js_String x) xs) (\<lambda>parts.
       Inr (js_join sep parts))"

definition is_space :: "char \<Rightarrow> bool" where
  "is_space c = (c \<in> set [CHR 0x09, CHR 0x0A, CHR 0x0B, CHR 0x0C, CHR 0x0D, CHR '' ''])"

definition js_trim :: "string \<Rightarrow> string" where
  "js_trim s = rev (dropWhile is_space (rev (dropWhile is_space s)))"

definition lower_char :: "char \<Rightarrow> char" where
  "lower_char c =
     (let n = (of_char c :: nat) in if 65 \<le> n \<and> n \<le> 90 then char_of (n + 32) else c)"

definition upper_char :: "char \<Rightarrow> char" where
  "upper_char c =
     (let n = (of_char c :: nat) in if 97 \<le> n \<and> n \<le> 122 then char_of (n - 32) else c)"

definition toLowerCase :: "string \<Rightarrow> string" where
  "toLowerCase s = map lower_char s"

fun starts_with :: "string \<Rightarrow> string \<Rightarrow> bool" where
  "starts_with s [] = True"
| "starts_with [] (p # ps) = False"
| "starts_with (c # cs) (p # ps) = (c = p \<and> starts_with cs ps)"

fun js_includes :: "string \<Rightarrow> string \<Rightarrow> bool" where
  "js_includes [] t = (t = [])"
| "js_includes (c # cs) t = (starts_with (c # cs) t \<or> js_includes cs t)"

text \<open>\<^verbatim>\<open>s.split(sep)\<close> for a one-character separator: the empty string gives one empty piece.\<close>

fun js_split :: "char \<Rightarrow> string \<Rightarrow> string list" where
  "js_split sep [] = [[]]"
| "js_split sep (c # cs) =
     (if c = sep then [] # js_split sep cs
      else (case js_split sep cs of [] \<Rightarrow> [[c]] | p # ps \<Rightarrow> (c # p) # ps))"

subsection \<open>Sets\<close>

text \<open>
  \<^verbatim>\<open>new Set(xs)\<close> keeps the first occurrence of each value, in order. Primitives are the same
  when they are equal; an array or an object is only the same as itself, and since values are
  trees every occurrence of one in a list is a member of its own.
\<close>

fun is_primitive :: "jsval \<Rightarrow> bool" where
  "is_primitive (JArr _) = False"
| "is_primitive (JObj _) = False"
| "is_primitive _ = True"

definition set_add :: "jsval list \<Rightarrow> jsval \<Rightarrow> jsval list" where
  "set_add s v = (if is_primitive v \<and> v \<in> set s then s else s @ [v])"

definition new_Set :: "jsval list \<Rightarrow> jsval list" where
  "new_Set xs = foldl set_add [] xs"

section \<open>The action plan agent\<close>

subsection \<open>\<^verbatim>\<open>summarizePackages\<close>\<close>

definition ellipsis :: string where
  "ellipsis = [CHR 0xE2, CHR 0x80, CHR 0xA6]"

text \<open>
  The function is only called with an array: a severity bucket or the \<^verbatim>\<open>licenses\<close> array.
  The result is \<^verbatim>\<open>null\<close> or a string.
\<close>

definition summarizePackages :: "jsval list \<Rightarrow> jsval result" where
  "summarizePackages issues =
     bind (mapM (\<lambda>issue. get issue ''packageName'') issues) (\<lambda>names.
       let packages = filter truthy names;
           unique = take 5 (new_Set packages)
       in if length unique = 0 then Inr JNull
          else bind (join_vals '', '' unique) (\<lambda>list.
                 Inr (JStr (if length packages > length unique
                            then list @ '', '' @ ellipsis else list))))"

subsection \<open>The deterministic planner\<close>

record plan =
  steps :: "jsval list"
  noAction :: bool
  source :: string

definition severityOrder :: "string list" where
  "severityOrder = [''critical'', ''high'', ''medium'', ''low'']"

text \<open>\<^verbatim>\<open>typeof v === 'object'\<close>\<close>

fun typeof_object :: "jsval \<Rightarrow> bool" where
  "typeof_object JNull = True"
| "typeof_object (JArr _) = True"
| "typeof_object (JObj _) = True"
| "typeof_object _ = False"

fun filterM :: "('a \<Rightarrow> bool result) \<Rightarrow> 'a list \<Rightarrow> 'a list result" where
  "filterM f [] = Inr []"
| "filterM f (x # xs) =
     bind (f x) (\<lambda>b. bind (filterM f xs) (\<lambda>ys. Inr (if b then x # ys else ys)))"

text \<open>\<^verbatim>\<open>scanResult.issues.filter((issue) => issue.severity === severity)\<close>\<close>

definition bucket :: "jsval list \<Rightarrow> string \<Rightarrow> jsval list result" where
  "bucket issues severity =
     filterM (\<lambda>issue. bind (get issue ''severity'') (\<lambda>s. Inr (s = JStr severity))) issues"

text \<open>\<^verbatim>\<open>fixHints\<close> is a set of strings, kept in insertion order.\<close>

definition hint_add :: "string list \<Rightarrow> string \<Rightarrow> string list" where
  "hint_add hs h = (if h \<in> set hs then hs else hs @ [h])"

definition issueHints :: "string list \<Rightarrow> jsval \<Rightarrow> string list result" where
  "issueHints hs issue =
     bind (get issue ''upgradePath'') (\<lambda>up.
       let hs1 = (if isArray up \<and> list_ex truthy (elems up)
                  then hint_add hs ''upgrade dependencies to secure versions'' else hs)
       in bind (get issue ''isPatched'') (\<lambda>p.
            Inr (if truthy p then hint_add hs1 ''apply available patches'' else hs1)))"

fun foldM :: "('b \<Rightarrow> 'a \<Rightarrow> 'b result) \<Rightarrow> 'b \<Rightarrow> 'a list \<Rightarrow> 'b result" where
  "foldM f acc [] = Inr acc"
| "foldM f acc (x # xs) = bind (f acc x) (\<lambda>acc'. foldM f acc' xs)"

definition capitalize :: "string \<Rightarrow> string" where
  "capitalize s = (case s of [] \<Rightarrow> [] | c # cs \<Rightarrow> upper_char c # cs)"

text \<open>
  The body of \<^verbatim>\<open>severityOrder.forEach\<close>: the steps one severity pushes (none for an empty
  bucket). The two files of the planner have the same text here. \<^verbatim>\<open>packages\<close> is \<^verbatim>\<open>null\<close> or
  a string, so the template literal does not throw.
\<close>

definition bucketSteps :: "string \<Rightarrow> jsval list \<Rightarrow> string list result" where
  "bucketSteps severity issues =
     (if length issues = 0 then Inr []
      else bind (summarizePackages issues) (\<lambda>packages.
           bind (foldM issueHints [] issues) (\<lambda>fixHints.
             let title = capitalize severity @ '' vulnerabilities'';
                 hintText = (if length fixHints > 0
                             then '' ('' @ js_join '' or '' fixHints @ '')'' else []);
                 packageText = (if truthy packages
                                then '' ('' @ js_to_string packages @ '')'' else [])
             in Inr [''Resolve '' @ title @ '' first'' @ packageText @ hintText @ ''.''])))"

text \<open>The \<^verbatim>\<open>reduce\<close> that fills \<^verbatim>\<open>issuesBySeverity\<close>, then the \<^verbatim>\<open>forEach\<close>.\<close>

definition severitySteps :: "jsval list \<Rightarrow> string list result" where
  "severitySteps issues =
     bind (mapM (bucket issues) severityOrder) (\<lambda>issuesBySeverity.
     bind (mapM (\<lambda>(severity, b). bucketSteps severity b) (zip severityOrder issuesBySeverity))
       (\<lambda>pushed. Inr (concat pushed)))"

definition licenseSteps :: "jsval \<Rightarrow> string list result" where
  "licenseSteps scanResult =
     bind (get scanResult ''licenses'') (\<lambda>licenses.
       if isArray licenses \<and> length (elems licenses) > 0
       then bind (summarizePackages (elems licenses)) (\<lambda>licensePkgs.
              Inr [''Review license findings''
                   @ (if truthy licensePkgs then '' for '' @ js_to_string licensePkgs else [])
                   @ '' with legal/compliance teams.''])
       else Inr [])"

definition restoreStep :: string where
  "restoreStep = ''Restore repository access so automated scans can run.''"

definition closingSteps :: "string list" where
  "closingSteps =
     [''Add automated dependency updates (Dependabot, Renovate) and enforce Snyk scans in CI.'',
      ''Re-run `snyk test` after applying fixes to confirm a clean report.'']"

definition noVulnerabilitiesStep :: string where
  "noVulnerabilitiesStep =
     ''No vulnerabilities found. Schedule recurring scans and keep dependencies updated.''"

text \<open>\<^verbatim>\<open>ActionPlanAgent.generateFallback\<close> of the agent with the delegated path.\<close>

definition generateFallback :: "jsval \<Rightarrow> plan result" where
  "generateFallback scanResult =
     (if \<not> truthy scanResult \<or> \<not> typeof_object scanResult
      then Inr \<lparr>steps = [], noAction = True, source = ''fallback''\<rparr>
      else bind (get scanResult ''repositoryAccessible'') (\<lambda>accessible.
        if \<not> truthy accessible
        then Inr \<lparr>steps = [JStr restoreStep], noAction = False, source = ''fallback''\<rparr>
        else bind (get scanResult ''issues'') (\<lambda>issues.
          if \<not> isArray issues
          then Inr \<lparr>steps = [], noAction = True, source = ''fallback''\<rparr>
          else bind (severitySteps (elems issues)) (\<lambda>s1.
               bind (licenseSteps scanResult) (\<lambda>s2.
                 if length (elems issues) > 0
                 then Inr \<lparr>steps = map JStr (s1 @ s2 @ closingSteps), noAction = False,
                           source = ''fallback''\<rparr>
                 else Inr \<lparr>steps = [], noAction = True, source = ''fallback''\<rparr>)))))"

text \<open>
  \<^verbatim>\<open>ActionPlanAgent.generate\<close> of \<^verbatim>\<open>src/actionPlanAgent.js\<close>, the planner without a delegated
  path: it is synchronous and returns the array of steps, with no flag.
\<close>

definition generate_sync :: "jsval \<Rightarrow> jsval list result" where
  "generate_sync scanResult =
     (if \<not> truthy scanResult \<or> \<not> typeof_object scanResult then Inr []
      else bind (get scanResult ''repositoryAccessible'') (\<lambda>accessible.
        if \<not> truthy accessible then Inr [JStr restoreStep]
        else bind (get scanResult ''issues'') (\<lambda>issues.
          if \<not> isArray issues then Inr []
          else bind (severitySteps (elems issues)) (\<lambda>s1.
               bind (licenseSteps scanResult) (\<lambda>s2.
                 if length (elems issues) > 0
                 then Inr (map JStr (s1 @ s2 @ closingSteps))
                 else Inr (map JStr (s1 @ s2 @ [noVulnerabilitiesStep])))))))"

subsection \<open>The delegated path\<close>

text \<open>
  What a call of the OpenAI client does: it throws before returning a promise (also when
  the method does not exist), returns a promise that rejects, or one that resolves.
\<close>

datatype 'a outcome = Throws js_error | Rejects js_error | Resolves 'a

text \<open>
  The world outside one call of \<^verbatim>\<open>generate\<close>: whether the constructor made a client (an API
  key and the \<^verbatim>\<open>openai\<close> module are both there), what \<^verbatim>\<open>client.agents.create\<close> and
  \<^verbatim>\<open>client.responses.create\<close> (given the agent's id and the report) do, and \<^verbatim>\<open>JSON.parse\<close>,
  which returns the value or throws a \<^verbatim>\<open>SyntaxError\<close> with the message given.
\<close>

record agent_env =
  client :: bool
  agents_create :: "jsval outcome"
  responses_create :: "jsval \<Rightarrow> jsval \<Rightarrow> jsval outcome"
  json_parse :: "string \<Rightarrow> string + jsval"

text \<open>
  The agent's state is \<^verbatim>\<open>this.agentPromise\<close>: \<open>None\<close> for \<^verbatim>\<open>null\<close>, \<open>Some v\<close> for a promise
  that resolves to \<open>v\<close>.
\<close>

type_synonym agent_state = "jsval option"

definition ensureAgent :: "agent_env \<Rightarrow> agent_state \<Rightarrow> jsval result \<times> agent_state" where
  "ensureAgent env st =
     (if \<not> client env then (Inr JNull, st)
      else case st of
             Some agent \<Rightarrow> (Inr agent, st)
           | None \<Rightarrow>
               (case agents_create env of
                  Throws e \<Rightarrow> (Inl e, None)
                | Rejects e \<Rightarrow> (Inr JNull, None)
                | Resolves agent \<Rightarrow> (Inr agent, Some agent)))"

fun is_string :: "jsval \<Rightarrow> bool" where
  "is_string (JStr _) = True"
| "is_string _ = False"

definition isTextItem :: "jsval \<Rightarrow> bool" where
  "isTextItem contentItem =
     (getq contentItem ''type'' = JStr ''output_text'' \<or> getq contentItem ''type'' = JStr ''text'')"

definition chunkText :: "jsval \<Rightarrow> jsval result" where
  "chunkText contentItem =
     bind (get contentItem ''text'') (\<lambda>t.
     bind (get contentItem ''value'') (\<lambda>v. Inr (js_or t (js_or v (JStr [])))))"

definition itemChunks :: "jsval \<Rightarrow> jsval list result" where
  "itemChunks item =
     bind (get item ''content'') (\<lambda>content.
       if isArray content then mapM chunkText (filter isTextItem (elems content)) else Inr [])"

definition extractText :: "jsval \<Rightarrow> string result" where
  "extractText response =
     (if \<not> truthy response then Inr []
      else bind (get response ''output_text'') (\<lambda>output_text.
        if is_string output_text \<and> js_trim (js_to_string output_text) \<noteq> []
        then Inr (js_to_string output_text)
        else bind (get response ''output'') (\<lambda>output.
             bind (if isArray output then mapM itemChunks (elems output) else Inr [])
               (\<lambda>chunks.
             bind (join_vals [CHR 0x0A] (concat chunks)) (\<lambda>joined. Inr (js_trim joined))))))"

text \<open>The body of the \<^verbatim>\<open>try\<close> block of \<^verbatim>\<open>generateWithOpenAI\<close>.\<close>

definition delegatedAttempt :: "agent_env \<Rightarrow> jsval \<Rightarrow> jsval \<Rightarrow> plan result" where
  "delegatedAttempt env agent scanResult =
     bind (get agent ''id'') (\<lambda>agent_id.
       case responses_create env agent_id scanResult of
         Throws e \<Rightarrow> Inl e
       | Rejects e \<Rightarrow> Inl e
       | Resolves response \<Rightarrow>
           bind (extractText response) (\<lambda>textOutput.
             if textOutput = [] then Inl (Error ''No text output from agent'')
             else case json_parse env textOutput of
                    Inl m \<Rightarrow> Inl (SyntaxError m)
                  | Inr parsed \<Rightarrow>
                      bind (get parsed ''steps'') (\<lambda>parsed_steps.
                        let steps = (if isArray parsed_steps
                                     then filter truthy (elems parsed_steps) else [])
                        in bind (get parsed ''no_action'') (\<lambda>no_action.
                             Inr \<lparr>steps = steps,
                                  noAction = (truthy no_action \<or> length steps = 0),
                                  source = ''openai''\<rparr>))))"

text \<open>
  \<^verbatim>\<open>generateWithOpenAI\<close>: \<open>Inr None\<close> is the \<^verbatim>\<open>null\<close> it returns, \<open>Inl e\<close> the rejection of its
  promise. \<^verbatim>\<open>await this.ensureAgent()\<close> stands before the \<^verbatim>\<open>try\<close>.
\<close>

definition generateWithOpenAI ::
  "agent_env \<Rightarrow> agent_state \<Rightarrow> jsval \<Rightarrow> plan option result \<times> agent_state" where
  "generateWithOpenAI env st scanResult =
     (case ensureAgent env st of
        (Inl e, st') \<Rightarrow> (Inl e, st')
      | (Inr agent, st') \<Rightarrow>
          if \<not> truthy agent then (Inr None, st')
          else (case delegatedAttempt env agent scanResult of
                  Inl err \<Rightarrow> (Inr None, st')
                | Inr p \<Rightarrow> (Inr (Some p), st')))"

definition generate :: "agent_env \<Rightarrow> agent_state \<Rightarrow> jsval \<Rightarrow> plan result \<times> agent_state" where
  "generate env st scanResult =
     (case generateWithOpenAI env st scanResult of
        (Inl e, st') \<Rightarrow> (Inl e, st')
      | (Inr (Some aiPlan), st') \<Rightarrow> (Inr aiPlan, st')
      | (Inr None, st') \<Rightarrow> (generateFallback scanResult, st'))"

section \<open>The scan server\<close>

subsection \<open>\<^verbatim>\<open>buildHelpfulErrorDetail\<close> and \<^verbatim>\<open>deriveRepoName\<close>\<close>

definition tokenHint :: string where
  "tokenHint = '' Ensure the backend process has a valid SNYK_TOKEN environment variable.''"

text \<open>
  What \<^verbatim>\<open>buildHelpfulErrorDetail\<close> returns. The call throws when \<^verbatim>\<open>String(details)\<close> does
  (\<open>toStringThrows\<close>): the handler passes it the streams and the message of the error that
  Node makes for a failed command, which are strings, and, inside the last \<^verbatim>\<open>try\<close>, a value
  of the scanner's JSON, where the throw is written out.
\<close>

definition buildHelpfulErrorDetail :: "jsval \<Rightarrow> jsval" where
  "buildHelpfulErrorDetail details0 =
     (let details = (if details0 = JUndefined then JStr [] else details0);
          normalized = toLowerCase (js_to_string (js_or details (JStr [])))
      in if js_includes normalized ''snyk auth'' \<or> js_includes normalized ''authentication''
         then JStr (js_trim (js_to_string details @ tokenHint))
         else details)"

definition ends_with :: "string \<Rightarrow> string \<Rightarrow> bool" where
  "ends_with s t = starts_with (rev s) (rev t)"

text \<open>\<^verbatim>\<open>s.replace(/\.git$/, '')\<close>\<close>

definition strip_git :: "string \<Rightarrow> string" where
  "strip_git s = (if ends_with s ''.git'' then take (length s - 4) s else s)"

text \<open>
  A value that is not a string has no \<^verbatim>\<open>trim\<close> method: the call throws and the \<^verbatim>\<open>catch\<close>
  returns \<^verbatim>\<open>'Repository'\<close>.
\<close>

definition deriveRepoName :: "jsval \<Rightarrow> jsval" where
  "deriveRepoName repoUrl0 =
     (case (if repoUrl0 = JUndefined then JStr [] else repoUrl0) of
        JStr repoUrl \<Rightarrow>
          (let cleaned = strip_git (js_trim repoUrl);
               parts = filter (\<lambda>p. p \<noteq> []) (js_split CHR ''/'' cleaned);
               lastTwo = drop (length parts - 2) parts
           in JStr (js_join ''/'' lastTwo))
      | _ \<Rightarrow> JStr ''Repository'')"

subsection \<open>\<^verbatim>\<open>formatSnykPayload\<close>\<close>

text \<open>\<^verbatim>\<open>v?.[0]\<close>\<close>

fun index0q :: "jsval \<Rightarrow> jsval" where
  "index0q (JArr xs) = nth_or_undefined xs 0"
| "index0q (JStr s) = (case s of [] \<Rightarrow> JUndefined | c # _ \<Rightarrow> JStr [c])"
| "index0q (JObj fs) = lookup fs ''0''"
| "index0q _ = JUndefined"

text \<open>\<^verbatim>\<open>a ?? b\<close>\<close>

definition js_coalesce :: "jsval \<Rightarrow> jsval \<Rightarrow> jsval" where
  "js_coalesce a b = (if nullish a then b else a)"

definition pushTarget :: "string list \<Rightarrow> jsval \<Rightarrow> string list" where
  "pushTarget targetFiles v =
     (case v of
        JStr s \<Rightarrow>
          (let trimmed = js_trim s
           in if trimmed = [] then targetFiles
              else if trimmed \<in> set targetFiles then targetFiles
              else targetFiles @ [trimmed])
      | _ \<Rightarrow> targetFiles)"

text \<open>
  \<^verbatim>\<open>counters\<close> is an object: it starts with the four severities at zero, in the order of the
  object literal, and inherits from \<^verbatim>\<open>Object.prototype\<close>. The key of
  \<^verbatim>\<open>counters[item.severity]\<close> is the string of the value, and the conversion may throw.
  The test against \<^verbatim>\<open>undefined\<close> is passed by an own property and by a property that
  \<^verbatim>\<open>Object.prototype\<close> defines. For an own property \<^verbatim>\<open>+= 1\<close> adds one to a number and appends
  \<^verbatim>\<open>1\<close> to a string. For an inherited function it makes an own property out of the text of
  the function, as Node prints it, and \<^verbatim>\<open>1\<close>. For \<^verbatim>\<open>__proto__\<close> the assignment of a string
  does nothing.
\<close>

definition counters0 :: "(string \<times> jsval) list" where
  "counters0 =
     [(''critical'', JNum 0), (''high'', JNum 0), (''medium'', JNum 0), (''low'', JNum 0)]"

text \<open>The functions of \<^verbatim>\<open>Object.prototype\<close>: the name of the property and of the function.\<close>

definition objectPrototype :: "(string \<times> string) list" where
  "objectPrototype =
     [(''constructor'', ''Object''),
      (''__defineGetter__'', ''__defineGetter__''),
      (''__defineSetter__'', ''__defineSetter__''),
      (''hasOwnProperty'', ''hasOwnProperty''),
      (''__lookupGetter__'', ''__lookupGetter__''),
      (''__lookupSetter__'', ''__lookupSetter__''),
      (''isPrototypeOf'', ''isPrototypeOf''),
      (''propertyIsEnumerable'', ''propertyIsEnumerable''),
      (''toString'', ''toString''),
      (''valueOf'', ''valueOf''),
      (''toLocaleString'', ''toLocaleString'')]"

definition nativeText :: "string \<Rightarrow> string" where
  "nativeText name = ''function '' @ name @ ''() { [native code] }''"

text \<open>\<^verbatim>\<open>v + 1\<close> for the values a property of \<^verbatim>\<open>counters\<close> holds.\<close>

fun plusOne :: "jsval \<Rightarrow> jsval" where
  "plusOne (JNum n) = JNum (n + 1)"
| "plusOne (JStr s) = JStr (s @ ''1'')"
| "plusOne v = v"

text \<open>\<^verbatim>\<open>obj[k] = v\<close> on the own properties of an object.\<close>

fun assign :: "(string \<times> jsval) list \<Rightarrow> string \<Rightarrow> jsval \<Rightarrow> (string \<times> jsval) list" where
  "assign [] k v = [(k, v)]"
| "assign ((k', v') # props) k v =
     (if k' = k then (k', v) # props else (k', v') # assign props k v)"

definition countIssue :: "(string \<times> jsval) list \<Rightarrow> jsval \<Rightarrow> (string \<times> jsval) list result" where
  "countIssue counters item =
     bind (get item ''severity'') (\<lambda>severity.
       if \<not> truthy severity then Inr counters
       else bind (js_String severity) (\<lambda>key.
         if key \<in> set (map fst counters)
         then Inr (assign counters key (plusOne (lookup counters key)))
         else case map_of objectPrototype key of
                Some name \<Rightarrow> Inr (assign counters key (JStr (nativeText name @ ''1'')))
              | None \<Rightarrow> Inr counters))"

definition formatIssue :: "jsval \<Rightarrow> jsval result" where
  "formatIssue item =
     bind (get item ''id'') (\<lambda>id.
     bind (get item ''title'') (\<lambda>title.
     bind (get item ''severity'') (\<lambda>severity.
     bind (get item ''packageName'') (\<lambda>packageName.
     bind (get item ''version'') (\<lambda>version.
     bind (get item ''from'') (\<lambda>from.
     bind (get item ''description'') (\<lambda>description.
     bind (get item ''url'') (\<lambda>url.
     bind (get item ''identifiers'') (\<lambda>identifiers.
     bind (get item ''publicationTime'') (\<lambda>publicationTime.
     bind (get item ''upgradePath'') (\<lambda>upgradePath.
     bind (get item ''isPatched'') (\<lambda>isPatched.
       Inr (JObj
         [(''id'', id),
          (''title'', title),
          (''severity'', severity),
          (''packageName'', packageName),
          (''version'', version),
          (''from'', from),
          (''description'', description),
          (''url'', js_or url (js_or (index0q (getq identifiers ''url'')) JNull)),
          (''publicationTime'', js_or publicationTime JNull),
          (''upgradePath'', js_or upgradePath (JArr [])),
          (''isPatched'', js_or isPatched (JBool False))])))))))))))))"

definition formatLicense :: "jsval \<Rightarrow> jsval result" where
  "formatLicense item =
     bind (get item ''id'') (\<lambda>id.
     bind (get item ''title'') (\<lambda>title.
     bind (get item ''severity'') (\<lambda>severity.
     bind (get item ''packageName'') (\<lambda>packageName.
     bind (get item ''description'') (\<lambda>description.
     bind (get item ''url'') (\<lambda>url.
       Inr (JObj
         [(''id'', id),
          (''title'', title),
          (''severity'', severity),
          (''packageName'', packageName),
          (''description'', description),
          (''url'', js_or url JNull)])))))))"

text \<open>The issue list the normalizer works on, and the license list.\<close>

definition rawIssues :: "jsval \<Rightarrow> jsval list" where
  "rawIssues payload =
     (let legacyVulns = (if isArray (getq payload ''vulnerabilities'')
                         then elems (getq payload ''vulnerabilities'') else [])
      in if isArray (getq (getq payload ''issues'') ''vulnerabilities'')
         then elems (getq (getq payload ''issues'') ''vulnerabilities'')
         else legacyVulns)"

definition rawLicenses :: "jsval \<Rightarrow> jsval list" where
  "rawLicenses payload =
     (if isArray (getq (getq payload ''issues'') ''licenses'')
      then elems (getq (getq payload ''issues'') ''licenses'') else [])"

definition projectNameOf :: "jsval \<Rightarrow> jsval \<Rightarrow> jsval" where
  "projectNameOf payload repoUrl =
     js_or (getq payload ''projectName'')
       (js_or (index0q (getq payload ''projectNames''))
         (js_or (getq payload ''displayTargetFile'')
           (js_or (deriveRepoName repoUrl) (JStr ''Unknown project''))))"

definition targetFilesOf :: "jsval \<Rightarrow> string list" where
  "targetFilesOf payload =
     (let t1 = pushTarget [] (getq payload ''displayTargetFile'');
          t2 = pushTarget t1 (getq payload ''targetFile'')
      in if isArray (getq payload ''targetFiles'')
         then foldl pushTarget t2 (elems (getq payload ''targetFiles'')) else t2)"

text \<open>
  \<^verbatim>\<open>formatSnykPayload(payload, { repoUrl, snykCommand })\<close>. The loop that counts runs before
  the two \<^verbatim>\<open>map\<close> calls of the object literal.
\<close>

definition formatSnykPayload :: "jsval \<Rightarrow> jsval \<Rightarrow> jsval \<Rightarrow> jsval result" where
  "formatSnykPayload payload repoUrl snykCommand =
     (let issues = rawIssues payload;
          licenseIssues = rawLicenses payload;
          projectName = projectNameOf payload repoUrl;
          targetFiles = targetFilesOf payload;
          projectType = js_or (getq payload ''projectType'')
                          (js_or (getq payload ''packageManager'') JNull);
          dependencyCount =
            js_coalesce (getq payload ''dependencyCount'')
              (js_coalesce (getq (getq payload ''summary'') ''dependencyCount'') JNull);
          repositoryUrl = js_or repoUrl (js_or (getq payload ''projectUrl'') JNull)
      in bind (foldM countIssue counters0 issues) (\<lambda>counters.
         bind (mapM formatIssue issues) (\<lambda>formattedIssues.
         bind (mapM formatLicense licenseIssues) (\<lambda>formattedLicenses.
           Inr (JObj
             [(''ok'', JBool (truthy (getq payload ''ok''))),
              (''projectName'', projectName),
              (''summary'', JObj counters),
              (''issues'', JArr formattedIssues),
              (''licenses'', JArr formattedLicenses),
              (''projectType'', projectType),
              (''repositoryUrl'', repositoryUrl),
              (''repositoryAccessible'', JBool True),
              (''scanTargetFiles'', JArr (map JStr targetFiles)),
              (''primaryTargetFile'',
                 js_or (nth_or_undefined (map JStr targetFiles) 0) JNull),
              (''snykCommand'', js_or snykCommand JNull),
              (''dependencyCount'', dependencyCount),
              (''raw'', payload)])))))"

subsection \<open>The handler of \<^verbatim>\<open>POST /api/scan\<close>\<close>

text \<open>
  What the handler does to the outside, in order: a call of \<^verbatim>\<open>cleanUpDir\<close>, the \<^verbatim>\<open>fs.rm\<close> that
  call makes, a response with its status and JSON body, and the rejection of the handler's
  promise by an error nothing caught.
\<close>

datatype event =
    CleanUpDir string
  | Rm string
  | Respond nat "(string \<times> jsval) list"
  | Rejected js_error

datatype exec_outcome =
    ExecOk string
  | ExecErr "(string \<times> jsval) list"

text \<open>
  The world outside one request: the \<^verbatim>\<open>repoUrl\<close> of the request body, the directory
  \<^verbatim>\<open>fs.mkdtemp\<close> makes, whether \<^verbatim>\<open>git.clone\<close> throws, the standard output of the scanner or
  the error object \<^verbatim>\<open>execAsync\<close> rejects with, the scanner command, \<^verbatim>\<open>JSON.parse\<close>, and the
  awaited \<^verbatim>\<open>generate\<close> of the module \<^verbatim>\<open>./actionPlanAgent\<close> (either of the two planners).
  A failing \<^verbatim>\<open>fs.rm\<close> is caught inside \<^verbatim>\<open>cleanUpDir\<close> and only logged. \<^verbatim>\<open>path.join\<close>, the
  factory \<^verbatim>\<open>simpleGit()\<close> and the sending of a response are taken to return.
\<close>

record scan_env =
  body_repoUrl :: jsval
  mkdtemp :: "string result"
  clone :: "unit result"
  exec :: exec_outcome
  SNYK_COMMAND :: string
  JSON_parse :: "string \<Rightarrow> string + jsval"
  planner :: "jsval \<Rightarrow> jsval result"

definition cleanUpDir :: "string \<Rightarrow> event list" where
  "cleanUpDir dirPath = CleanUpDir dirPath # (if dirPath = [] then [] else [Rm dirPath])"

text \<open>The last \<^verbatim>\<open>try\<close> block, without its \<^verbatim>\<open>catch\<close> and \<^verbatim>\<open>finally\<close>: the response it sends.\<close>

definition parseAndPlan :: "scan_env \<Rightarrow> jsval \<Rightarrow> jsval \<Rightarrow> event result" where
  "parseAndPlan env repoUrl scanOutput =
     bind (js_String scanOutput) (\<lambda>output.
     case JSON_parse env output of
        Inl m \<Rightarrow> Inl (SyntaxError m)
      | Inr parsed \<Rightarrow>
          if truthy (getq parsed ''error'') \<or> truthy (getq parsed ''userMessage'')
          then bind (js_String (js_or (getq parsed ''userMessage'') (getq parsed ''error'')))
                 (\<lambda>shown.
                 Inr (Respond 502
                   [(''error'', JStr ''Snyk scan reported an error.''),
                    (''details'', buildHelpfulErrorDetail
                                    (js_or (getq parsed ''userMessage'') (getq parsed ''error'')))]))
          else bind (formatSnykPayload parsed repoUrl (JStr (SNYK_COMMAND env))) (\<lambda>formatted.
               bind (planner env formatted) (\<lambda>actionPlan.
                 case formatted of
                   JObj props \<Rightarrow> Inr (Respond 200 (props @ [(''actionPlan'', actionPlan)]))
                 | _ \<Rightarrow> Inr (Respond 200 [(''actionPlan'', actionPlan)]))))"

definition parseStage :: "scan_env \<Rightarrow> string \<Rightarrow> jsval \<Rightarrow> jsval \<Rightarrow> event list" where
  "parseStage env baseTempDir repoUrl scanOutput =
     (case parseAndPlan env repoUrl scanOutput of
        Inr response \<Rightarrow> [response]
      | Inl err \<Rightarrow>
          [Respond 500
             [(''error'', JStr ''Unable to parse Snyk output.''),
              (''details'', JStr (message err)),
              (''rawOutput'', scanOutput)]])
     @ cleanUpDir baseTempDir"

text \<open>The \<^verbatim>\<open>stdout\<close> and \<^verbatim>\<open>stderr\<close> the \<^verbatim>\<open>catch\<close> of the scanner call reads off the error.\<close>

definition errStream :: "(string \<times> jsval) list \<Rightarrow> string \<Rightarrow> nat \<Rightarrow> jsval" where
  "errStream err name i =
     js_or (lookup err name)
       (if isArray (lookup err ''output'') then nth_or_undefined (elems (lookup err ''output'')) i
        else JStr [])"

definition scanHandler :: "scan_env \<Rightarrow> event list" where
  "scanHandler env =
     (let repoUrl = body_repoUrl env
      in if \<not> truthy repoUrl \<or> \<not> is_string repoUrl
         then [Respond 400 [(''error'', JStr ''A valid GitHub repository URL is required.'')]]
         else case mkdtemp env of
                Inl e \<Rightarrow> [Rejected e]
              | Inr baseTempDir \<Rightarrow>
                  (case clone env of
                     Inl err \<Rightarrow>
                       cleanUpDir baseTempDir
                       @ [Respond 400 [(''error'', JStr ''Failed to clone repository.''),
                                       (''details'', JStr (message err))]]
                   | Inr _ \<Rightarrow>
                       (case exec env of
                          ExecOk stdout \<Rightarrow> parseStage env baseTempDir repoUrl (JStr stdout)
                        | ExecErr err \<Rightarrow>
                            (let stdout = errStream err ''stdout'' 1;
                                 stderr = errStream err ''stderr'' 2
                             in if truthy stdout
                                then parseStage env baseTempDir repoUrl stdout
                                else cleanUpDir baseTempDir
                                     @ [Respond 500
                                          [(''error'', JStr ''Snyk scan failed.''),
                                           (''details'', buildHelpfulErrorDetail
                                              (js_or stderr (lookup err ''message'')))]]))))"

section \<open>Inputs used below\<close>

definition pkg :: "string \<Rightarrow> jsval" where
  "pkg name = JObj [(''packageName'', JStr name)]"

text \<open>The raw scanner output \<^verbatim>\<open>{"ok": true, "vulnerabilities": []}\<close> and its report.\<close>

definition cleanPayload :: jsval where
  "cleanPayload = JObj [(''ok'', JBool True), (''vulnerabilities'', JArr [])]"

definition cleanReport :: jsval where
  "cleanReport =
     JObj [(''ok'', JBool True),
           (''projectName'', JStr ''owner/repo''),
           (''summary'', JObj [(''critical'', JNum 0), (''high'', JNum 0),
                               (''medium'', JNum 0), (''low'', JNum 0)]),
           (''issues'', JArr []),
           (''licenses'', JArr []),
           (''projectType'', JNull),
           (''repositoryUrl'', JStr ''https://github.com/owner/repo.git''),
           (''repositoryAccessible'', JBool True),
           (''scanTargetFiles'', JArr []),
           (''primaryTargetFile'', JNull),
           (''snykCommand'', JStr ''npx snyk test --json''),
           (''dependencyCount'', JNull),
           (''raw'', cleanPayload)]"

text \<open>A report with no vulnerability and one license finding.\<close>

definition licensesOnlyReport :: jsval where
  "licensesOnlyReport =
     JObj [(''repositoryAccessible'', JBool True),
           (''issues'', JArr []),
           (''licenses'', JArr [JObj [(''id'', JStr ''snyk:lic:npm:x:GPL-3.0''),
                                      (''packageName'', JStr ''x'')]])]"

text \<open>A report with one high vulnerability.\<close>

definition oneIssueReport :: jsval where
  "oneIssueReport =
     JObj [(''repositoryAccessible'', JBool True),
           (''issues'', JArr [JObj [(''severity'', JStr ''high''),
                                    (''packageName'', JStr ''lodash'')]]),
           (''licenses'', JArr [])]"

text \<open>
  Worlds for the delegated path. \<open>parseOnly text v\<close> is \<^verbatim>\<open>JSON.parse\<close> on the one text the
  world answers with; \<open>answering text v\<close> is a world with a client and an agent whose response
  carries \<open>text\<close> as its \<^verbatim>\<open>output_text\<close>.
\<close>

definition parseOnly :: "string \<Rightarrow> jsval \<Rightarrow> string \<Rightarrow> string + jsval" where
  "parseOnly text v s = (if s = text then Inr v else Inl ''Unexpected token'')"

definition answering :: "string \<Rightarrow> jsval \<Rightarrow> agent_env" where
  "answering text v =
     \<lparr>client = True,
      agents_create = Resolves (JObj [(''id'', JStr ''agent_1'')]),
      responses_create = (\<lambda>agent_id scanResult. Resolves (JObj [(''output_text'', JStr text)])),
      json_parse = parseOnly text v\<rparr>"

definition offline :: agent_env where
  "offline =
     \<lparr>client = False,
      agents_create = Rejects (Error ''unreachable''),
      responses_create = (\<lambda>agent_id scanResult. Rejects (Error ''unreachable'')),
      json_parse = (\<lambda>s. Inl ''Unexpected token'')\<rparr>"

definition declaredNoActionText :: string where
  \<open>declaredNoActionText = ''{"steps":["Upgrade lodash"],"no_action":true}''\<close>

definition declaredNoAction :: agent_env where
  "declaredNoAction =
     answering declaredNoActionText
       (JObj [(''steps'', JArr [JStr ''Upgrade lodash'']), (''no_action'', JBool True)])"

definition offSchemaText :: string where
  \<open>offSchemaText = ''{"steps":"Upgrade lodash"}''\<close>

definition offSchema :: agent_env where
  "offSchema = answering offSchemaText (JObj [(''steps'', JStr ''Upgrade lodash'')])"

text \<open>
  A world with a client on which the call \<^verbatim>\<open>client.agents.create(...)\<close> throws: the client
  has no \<^verbatim>\<open>agents\<close>.
\<close>

definition createError :: js_error where
  "createError =
     TypeError (''Cannot read properties of undefined (reading '' @ [CHR 0x27] @ ''create''
                @ [CHR 0x27] @ '')'')"

definition createThrows :: agent_env where
  "createThrows =
     \<lparr>client = True,
      agents_create = Throws createError,
      responses_create = (\<lambda>agent_id scanResult. Rejects (Error ''unreachable'')),
      json_parse = (\<lambda>s. Inl ''Unexpected token'')\<rparr>"

section \<open>What the claim about the delegated path calls a failure\<close>

fun throwsSync :: "'a outcome \<Rightarrow> bool" where
  "throwsSync (Throws e) = True"
| "throwsSync _ = False"

text \<open>
  The failures of the delegated path: no client; the creation of the agent rejected; no agent;
  the call for a response threw or rejected; the response cannot be read or has no text; the
  text is not JSON; the JSON is \<^verbatim>\<open>null\<close>.
\<close>

definition delegatedFailure :: "agent_env \<Rightarrow> agent_state \<Rightarrow> jsval \<Rightarrow> bool" where
  "delegatedFailure env st scanResult =
     (if \<not> client env then True
      else case (case st of Some a \<Rightarrow> Resolves a | None \<Rightarrow> agents_create env) of
             Throws e \<Rightarrow> True
           | Rejects e \<Rightarrow> True
           | Resolves agent \<Rightarrow>
               (if \<not> truthy agent then True
                else case responses_create env (getq agent ''id'') scanResult of
                       Throws e \<Rightarrow> True
                     | Rejects e \<Rightarrow> True
                     | Resolves response \<Rightarrow>
                         (case extractText response of
                            Inl e \<Rightarrow> True
                          | Inr text \<Rightarrow>
                              (if text = [] then True
                               else case json_parse env text of
                                      Inl m \<Rightarrow> True
                                    | Inr parsed \<Rightarrow> nullish parsed))))"

section \<open>What the summary counts\<close>

text \<open>
  A severity value counts for the severity \<open>k\<close> when it is truthy and its string is \<open>k\<close>: this is
  the test \<^verbatim>\<open>item.severity && counters[item.severity] !== undefined\<close> for the counter \<open>k\<close>.
  For a string it says that the value is \<open>k\<close>; the array \<^verbatim>\<open>["high"]\<close> counts for \<^verbatim>\<open>high\<close> too.
\<close>

definition countsAs :: "string \<Rightarrow> jsval \<Rightarrow> bool" where
  "countsAs k severity = (truthy severity \<and> js_String severity = Inr k)"

definition recognized :: "jsval \<Rightarrow> bool" where
  "recognized severity = list_ex (\<lambda>k. countsAs k severity) severityOrder"

definition severityCount :: "jsval \<Rightarrow> string \<Rightarrow> jsval" where
  "severityCount report k = getq (getq report ''summary'') k"

definition issuesOf :: "jsval \<Rightarrow> jsval list" where
  "issuesOf report = elems (getq report ''issues'')"

definition issuesWith :: "(jsval \<Rightarrow> bool) \<Rightarrow> jsval \<Rightarrow> nat" where
  "issuesWith P report = length (filter (\<lambda>issue. P (getq issue ''severity'')) (issuesOf report))"

text \<open>The scanner output \<^verbatim>\<open>{"vulnerabilities":[{"severity":["high"]}]}\<close> and its report.\<close>

definition arraySeverityPayload :: jsval where
  "arraySeverityPayload =
     JObj [(''vulnerabilities'', JArr [JObj [(''severity'', JArr [JStr ''high''])]])]"

definition arraySeverityReport :: jsval where
  "arraySeverityReport =
     JObj [(''ok'', JBool False),
           (''projectName'', JStr ''owner/repo''),
           (''summary'', JObj [(''critical'', JNum 0), (''high'', JNum 1),
                               (''medium'', JNum 0), (''low'', JNum 0)]),
           (''issues'', JArr [JObj [(''id'', JUndefined),
                                    (''title'', JUndefined),
                                    (''severity'', JArr [JStr ''high'']),
                                    (''packageName'', JUndefined),
                                    (''version'', JUndefined),
                                    (''from'', JUndefined),
                                    (''description'', JUndefined),
                                    (''url'', JNull),
                                    (''publicationTime'', JNull),
                                    (''upgradePath'', JArr []),
                                    (''isPatched'', JBool False)]]),
           (''licenses'', JArr []),
           (''projectType'', JNull),
           (''repositoryUrl'', JStr ''https://github.com/owner/repo.git''),
           (''repositoryAccessible'', JBool True),
           (''scanTargetFiles'', JArr []),
           (''primaryTargetFile'', JNull),
           (''snykCommand'', JStr ''npx snyk test --json''),
           (''dependencyCount'', JNull),
           (''raw'', arraySeverityPayload)]"

text \<open>
  The scanner output \<^verbatim>\<open>{"vulnerabilities":[{"severity":"high"},{"severity":"info"},{}]}\<close>
  and its report.
\<close>

definition mixedPayload :: jsval where
  "mixedPayload =
     JObj [(''vulnerabilities'',
            JArr [JObj [(''severity'', JStr ''high'')],
                  JObj [(''severity'', JStr ''info'')],
                  JObj []])]"

definition mixedReport :: jsval where
  "mixedReport =
     JObj [(''ok'', JBool False),
           (''projectName'', JStr ''owner/repo''),
           (''summary'', JObj [(''critical'', JNum 0), (''high'', JNum 1),
                               (''medium'', JNum 0), (''low'', JNum 0)]),
           (''issues'',
            JArr [JObj [(''id'', JUndefined),
                    (''title'', JUndefined),
                    (''severity'', JStr ''high''),
                    (''packageName'', JUndefined),
                    (''version'', JUndefined),
                    (''from'', JUndefined),
                    (''description'', JUndefined),
                    (''url'', JNull),
                    (''publicationTime'', JNull),
                    (''upgradePath'', JArr []),
                    (''isPatched'', JBool False)],
                  JObj [(''id'', JUndefined),
                    (''title'', JUndefined),
                    (''severity'', JStr ''info''),
                    (''packageName'', JUndefined),
                    (''version'', JUndefined),
                    (''from'', JUndefined),
                    (''description'', JUndefined),
                    (''url'', JNull),
                    (''publicationTime'', JNull),
                    (''upgradePath'', JArr []),
                    (''isPatched'', JBool False)],
                  JObj [(''id'', JUndefined),
                    (''title'', JUndefined),
                    (''severity'', JUndefined),
                    (''packageName'', JUndefined),
                    (''version'', JUndefined),
                    (''from'', JUndefined),
                    (''description'', JUndefined),
                    (''url'', JNull),
                    (''publicationTime'', JNull),
                    (''upgradePath'', JArr []),
                    (''isPatched'', JBool False)]]),
           (''licenses'', JArr []),
           (''projectType'', JNull),
           (''repositoryUrl'', JStr ''https://github.com/owner/repo.git''),
           (''repositoryAccessible'', JBool True),
           (''scanTargetFiles'', JArr []),
           (''primaryTargetFile'', JNull),
           (''snykCommand'', JStr ''npx snyk test --json''),
           (''dependencyCount'', JNull),
           (''raw'', mixedPayload)]"

section \<open>Raw issues used below\<close>

text \<open>
  The raw issue \<^verbatim>\<open>{"id":"SNYK-JS-LODASH-1"}\<close> and the raw issue
  \<^verbatim>\<open>{"id":"SNYK-JS-LODASH-2","identifiers":{"url":["https://snyk.io/vuln/2"]}}\<close>, each with
  what \<^verbatim>\<open>formatSnykPayload\<close> makes of it.
\<close>

definition bareIssue :: jsval where
  "bareIssue = JObj [(''id'', JStr ''SNYK-JS-LODASH-1'')]"

definition bareIssueFormatted :: jsval where
  "bareIssueFormatted =
     JObj [(''id'', JStr ''SNYK-JS-LODASH-1''),
           (''title'', JUndefined),
           (''severity'', JUndefined),
           (''packageName'', JUndefined),
           (''version'', JUndefined),
           (''from'', JUndefined),
           (''description'', JUndefined),
           (''url'', JNull),
           (''publicationTime'', JNull),
           (''upgradePath'', JArr []),
           (''isPatched'', JBool False)]"

definition identifiersIssue :: jsval where
  "identifiersIssue =
     JObj [(''id'', JStr ''SNYK-JS-LODASH-2''),
           (''identifiers'', JObj [(''url'', JArr [JStr ''https://snyk.io/vuln/2''])])]"

definition identifiersIssueFormatted :: jsval where
  "identifiersIssueFormatted =
     JObj [(''id'', JStr ''SNYK-JS-LODASH-2''),
           (''title'', JUndefined),
           (''severity'', JUndefined),
           (''packageName'', JUndefined),
           (''version'', JUndefined),
           (''from'', JUndefined),
           (''description'', JUndefined),
           (''url'', JStr ''https://snyk.io/vuln/2''),
           (''publicationTime'', JNull),
           (''upgradePath'', JArr []),
           (''isPatched'', JBool False)]"

section \<open>The segments of a repository location\<close>

text \<open>
  The non-empty pieces between the slashes of a string, written without \<^verbatim>\<open>split\<close>: skip the
  slashes, take the characters up to the next slash, go on after them.
\<close>

function segments :: "string \<Rightarrow> string list" where
  "segments s =
     (case dropWhile (\<lambda>c. c = CHR ''/'') s of
        [] \<Rightarrow> []
      | c # cs \<Rightarrow> takeWhile (\<lambda>x. x \<noteq> CHR ''/'') (c # cs)
                  # segments (dropWhile (\<lambda>x. x \<noteq> CHR ''/'') (c # cs)))"
  by pat_completeness auto
termination
proof (relation "measure length")
  show "wf (measure length)" by simp
next
  fix s :: string and c cs
  assume d: "dropWhile (\<lambda>c. c = CHR ''/'') s = c # cs"
  have "length (dropWhile (\<lambda>x. x \<noteq> CHR ''/'') (c # cs)) \<le> length (c # cs)"
    by (rule length_dropWhile_le)
  moreover have "c \<noteq> CHR ''/''"
    using d hd_dropWhile [of "\<lambda>c. c = CHR ''/''" s] by auto
  then have "dropWhile (\<lambda>x. x \<noteq> CHR ''/'') (c # cs) = dropWhile (\<lambda>x. x \<noteq> CHR ''/'') cs"
    by simp
  moreover have "length (dropWhile (\<lambda>x. x \<noteq> CHR ''/'') cs) \<le> length cs"
    by (rule length_dropWhile_le)
  moreover have "length (c # cs) \<le> length s"
    using length_dropWhile_le [of "\<lambda>c. c = CHR ''/''" s] d by simp
  ultimately show "(dropWhile (\<lambda>x. x \<noteq> CHR ''/'') (c # cs), s) \<in> measure length"
    by simp
qed

declare segments.simps [simp del]

definition lastTwo :: "'a list \<Rightarrow> 'a list" where
  "lastTwo xs = drop (length xs - 2) xs"

section \<open>Reading a trace\<close>

fun isScanFailure :: "event \<Rightarrow> bool" where
  "isScanFailure (Respond status body) =
     (status = 500 \<and> lookup body ''error'' = JStr ''Snyk scan failed.'')"
| "isScanFailure _ = False"

fun isRespond :: "event \<Rightarrow> bool" where
  "isRespond (Respond status body) = True"
| "isRespond _ = False"

fun isRejected :: "event \<Rightarrow> bool" where
  "isRejected (Rejected e) = True"
| "isRejected _ = False"

text \<open>
  Worlds for a request. In each the clone succeeds and the scanner exits with a code other
  than zero. In \<open>foundVulnerabilities\<close> it has written the report
  \<^verbatim>\<open>{"vulnerabilities":[{"severity":"high"},{"severity":"info"},{}]}\<close>; in \<open>notAuthenticated\<close> it
  has written nothing but a line on the standard error; in \<open>garbledOutput\<close> it has written
  text that is not JSON.
\<close>

definition mixedText :: string where
  \<open>mixedText = ''{"vulnerabilities":[{"severity":"high"},{"severity":"info"},{}]}''\<close>

definition foundVulnerabilities :: scan_env where
  "foundVulnerabilities =
     \<lparr>body_repoUrl = JStr ''https://github.com/owner/repo.git'',
      mkdtemp = Inr ''/tmp/snyk-scan-Ab12Cd'',
      clone = Inr (),
      exec = ExecErr [(''message'', JStr ''Command failed: npx snyk test --json''),
                      (''code'', JNum 1),
                      (''stdout'', JStr mixedText),
                      (''stderr'', JStr [])],
      SNYK_COMMAND = ''npx snyk test --json'',
      JSON_parse = parseOnly mixedText mixedPayload,
      planner = (\<lambda>report. bind (generate_sync report) (\<lambda>plan. Inr (JArr plan)))\<rparr>"

definition notAuthenticated :: scan_env where
  "notAuthenticated =
     foundVulnerabilities
       \<lparr>exec := ExecErr [(''message'', JStr ''Command failed: npx snyk test --json''),
                         (''code'', JNum 2),
                         (''stdout'', JStr []),
                         (''stderr'', JStr ''Authentication failed. Run `snyk auth`.'')]\<rparr>"

definition garbledOutput :: scan_env where
  "garbledOutput =
     foundVulnerabilities
       \<lparr>exec := ExecErr [(''message'', JStr ''Command failed: npx snyk test --json''),
                         (''code'', JNum 2),
                         (''stdout'', JStr ''Testing /tmp/repo...''),
                         (''stderr'', JStr [])]\<rparr>"

section \<open>The plan's flag and its steps\<close>

lemma generateFallback_noAction:
  assumes "generateFallback r = Inr p"
  shows "noAction p \<longleftrightarrow> steps p = []"
  using assms
  by (auto simp: generateFallback_def bind_def closingSteps_def split: if_splits sum.splits)

lemma generateFallback_source:
  assumes "generateFallback r = Inr p"
  shows "source p = ''fallback''"
  using assms
  by (auto simp: generateFallback_def bind_def split: if_splits sum.splits)

lemma delegatedAttempt_plan:
  assumes "delegatedAttempt env agent r = Inr p"
  shows "source p = ''openai'' \<and> (steps p = [] \<longrightarrow> noAction p)"
  using assms
  by (auto simp: delegatedAttempt_def bind_def Let_def split: sum.splits outcome.splits if_splits)

lemma cleanReport_normalized:
  "formatSnykPayload cleanPayload (JStr ''https://github.com/owner/repo.git'')
     (JStr ''npx snyk test --json'') = Inr cleanReport"
  by code_simp

lemma generate_offline:
  "fst (generate offline st r) = generateFallback r"
  by (simp add: generate_def generateWithOpenAI_def ensureAgent_def offline_def)

text \<open>
  C1, as the code has it. A plan that \<^verbatim>\<open>generate\<close> returns comes from the fallback, and then
  its \<^verbatim>\<open>noAction\<close> is true exactly when it has no steps, or from the delegated path, and then
  \<^verbatim>\<open>noAction\<close> is true when it has no steps; a delegated plan may have steps and the flag.
\<close>

theorem generate_noAction:
  assumes "fst (generate env st r) = Inr p"
  shows "(source p = ''fallback'' \<and> (noAction p \<longleftrightarrow> steps p = []))
       \<or> (source p = ''openai'' \<and> (steps p = [] \<longrightarrow> noAction p))"
proof (cases "generateWithOpenAI env st r")
  case (Pair res st')
  show ?thesis
  proof (cases res)
    case (Inl e)
    with Pair assms show ?thesis by (simp add: generate_def)
  next
    case (Inr ai)
    show ?thesis
    proof (cases ai)
      case None
      with Pair Inr assms have "generateFallback r = Inr p" by (simp add: generate_def)
      then show ?thesis using generateFallback_noAction generateFallback_source by blast
    next
      case (Some aiPlan)
      with Pair Inr assms have p: "aiPlan = p" by (simp add: generate_def)
      from Pair Inr Some obtain agent where "delegatedAttempt env agent r = Inr aiPlan"
        by (auto simp: generateWithOpenAI_def split: prod.splits sum.splits if_splits)
      with p show ?thesis using delegatedAttempt_plan by blast
    qed
  qed
qed

theorem generate_noAction_witness:
  "fst (generate offline None cleanReport)
     = Inr \<lparr>steps = [], noAction = True, source = ''fallback''\<rparr>
   \<and> ((source \<lparr>steps = [], noAction = True, source = ''fallback''\<rparr> = ''fallback''
        \<and> (noAction \<lparr>steps = [], noAction = True, source = ''fallback''\<rparr>
             \<longleftrightarrow> steps \<lparr>steps = [], noAction = True, source = ''fallback''\<rparr> = []))
      \<or> (source \<lparr>steps = [], noAction = True, source = ''fallback''\<rparr> = ''openai''
          \<and> (steps \<lparr>steps = [], noAction = True, source = ''fallback''\<rparr> = []
               \<longrightarrow> noAction \<lparr>steps = [], noAction = True, source = ''fallback''\<rparr>)))"
proof -
  have h: "fst (generate offline None cleanReport)
             = Inr \<lparr>steps = [], noAction = True, source = ''fallback''\<rparr>"
    by (simp add: generate_offline generateFallback_def cleanReport_def bind_def
        severitySteps_def severityOrder_def bucket_def bucketSteps_def licenseSteps_def)
  from generate_noAction [OF h] h show ?thesis by simp
qed

text \<open>
  C1 as stated fails on the delegated path: the response declares \<^verbatim>\<open>no_action\<close> and gives
  a step, and the plan returned has the flag and the step.
\<close>

theorem generate_noAction_counterexample:
  "fst (generate declaredNoAction None cleanReport)
     = Inr \<lparr>steps = [JStr ''Upgrade lodash''], noAction = True, source = ''openai''\<rparr>
   \<and> \<not> (noAction \<lparr>steps = [JStr ''Upgrade lodash''], noAction = True, source = ''openai''\<rparr>
          \<longleftrightarrow> steps \<lparr>steps = [JStr ''Upgrade lodash''], noAction = True,
                      source = ''openai''\<rparr> = [])"
  by (simp add: generate_def generateWithOpenAI_def ensureAgent_def declaredNoAction_def
      answering_def delegatedAttempt_def extractText_def parseOnly_def bind_def js_trim_def
      is_space_def declaredNoActionText_def)

section \<open>The deterministic planner on a report without issues\<close>

text \<open>
  C2, as the code has it. For a report that is accessible, has an empty array of issues and
  no license finding, \<^verbatim>\<open>generateFallback\<close> returns the plan without steps and with
  \<^verbatim>\<open>noAction\<close> true; the planner of \<^verbatim>\<open>src/actionPlanAgent.js\<close>, which has no flag, returns the
  one step about recurring scans.
\<close>

theorem generateFallback_no_issues:
  assumes "truthy (lookup props ''repositoryAccessible'')"
    and "lookup props ''issues'' = JArr []"
    and "\<not> (isArray (lookup props ''licenses'') \<and> length (elems (lookup props ''licenses'')) > 0)"
  shows "generateFallback (JObj props)
           = Inr \<lparr>steps = [], noAction = True, source = ''fallback''\<rparr>
       \<and> generate_sync (JObj props) = Inr [JStr noVulnerabilitiesStep]"
proof -
  from assms(3) have "licenseSteps (JObj props) = Inr []"
    by (auto simp: licenseSteps_def bind_def)
  moreover have "severitySteps [] = Inr []"
    by (simp add: severitySteps_def bind_def severityOrder_def bucket_def bucketSteps_def)
  ultimately show ?thesis
    using assms(1,2) by (simp add: generateFallback_def generate_sync_def bind_def)
qed

theorem generateFallback_no_issues_witness:
  "generateFallback cleanReport = Inr \<lparr>steps = [], noAction = True, source = ''fallback''\<rparr>
   \<and> generate_sync cleanReport = Inr [JStr noVulnerabilitiesStep]"
  unfolding cleanReport_def
  by (rule generateFallback_no_issues) simp_all

text \<open>
  C2 as stated fails: on the report of \<^verbatim>\<open>{"ok": true, "vulnerabilities": []}\<close> the plan of
  \<^verbatim>\<open>generateFallback\<close> has no step, so it is not the plan with the informational step.
\<close>

theorem generateFallback_no_issues_counterexample:
  "bind (formatSnykPayload cleanPayload (JStr ''https://github.com/owner/repo.git'')
           (JStr ''npx snyk test --json'')) generateFallback
     = Inr \<lparr>steps = [], noAction = True, source = ''fallback''\<rparr>
   \<and> bind (formatSnykPayload cleanPayload (JStr ''https://github.com/owner/repo.git'')
           (JStr ''npx snyk test --json'')) generateFallback
     \<noteq> Inr \<lparr>steps = [JStr noVulnerabilitiesStep], noAction = True, source = ''fallback''\<rparr>"
  by (simp add: cleanReport_normalized generateFallback_def cleanReport_def bind_def
      severitySteps_def severityOrder_def bucket_def bucketSteps_def licenseSteps_def)

section \<open>License findings without vulnerabilities\<close>

text \<open>
  C3 fails on the code. With no vulnerability and one license finding, \<^verbatim>\<open>generateFallback\<close>
  computes the license step and then returns a plan without steps; the planner of
  \<^verbatim>\<open>src/actionPlanAgent.js\<close> keeps the step.
\<close>

theorem generateFallback_drops_license_step:
  "generateFallback licensesOnlyReport
     = Inr \<lparr>steps = [], noAction = True, source = ''fallback''\<rparr>
   \<and> licenseSteps licensesOnlyReport
     = Inr [''Review license findings for x with legal/compliance teams.'']
   \<and> generate_sync licensesOnlyReport
     = Inr [JStr ''Review license findings for x with legal/compliance teams.'',
            JStr noVulnerabilitiesStep]"
  by code_simp

theorem generateFallback_drops_license_step_witness:
  "generateFallback licensesOnlyReport
     \<noteq> Inr \<lparr>steps = [JStr ''Review license findings for x with legal/compliance teams.''],
             noAction = False, source = ''fallback''\<rparr>"
  using generateFallback_drops_license_step by simp

section \<open>The summary of package names\<close>

lemma summarizePackages_six:
  "summarizePackages (map pkg [''a'', ''b'', ''c'', ''d'', ''e'', ''f''])
     = Inr (JStr (''a, b, c, d, e, '' @ ellipsis))"
  by code_simp

lemma summarizePackages_two:
  "summarizePackages (map pkg [''a'', ''b'']) = Inr (JStr ''a, b'')"
  by code_simp

text \<open>
  C6 fails on the code. Two issues of the one package \<open>a\<close> give the summary of \<open>a\<close> with the
  ellipsis marker, although there is one distinct name: the test compares the number of
  names, repetitions counted, with the number of names listed.
\<close>

theorem summarizePackages_repeated_name:
  "summarizePackages [pkg ''a'', pkg ''a''] = Inr (JStr (''a, '' @ ellipsis))"
  by code_simp

theorem summarizePackages_repeated_name_witness:
  "summarizePackages [pkg ''a'', pkg ''a''] \<noteq> Inr (JStr ''a'')"
  using summarizePackages_repeated_name by (simp add: ellipsis_def)

section \<open>Failures of the delegated path\<close>

lemma get_truthy: "truthy v \<Longrightarrow> get v k = Inr (getq v k)"
  by (cases v) simp_all

lemma delegatedAttempt_failure:
  assumes "truthy agent"
  shows "(case delegatedAttempt env agent r of Inl e \<Rightarrow> True | Inr p \<Rightarrow> False) \<longleftrightarrow>
     (case responses_create env (getq agent ''id'') r of
        Throws e \<Rightarrow> True
      | Rejects e \<Rightarrow> True
      | Resolves response \<Rightarrow>
          (case extractText response of
             Inl e \<Rightarrow> True
           | Inr out \<Rightarrow>
               (if out = [] then True
                else case json_parse env out of
                       Inl m \<Rightarrow> True
                     | Inr parsed \<Rightarrow> nullish parsed)))"
proof (cases "responses_create env (getq agent ''id'') r")
  case (Resolves response)
  show ?thesis
  proof (cases "extractText response")
    case (Inl e)
    with Resolves assms show ?thesis
      by (simp add: delegatedAttempt_def get_truthy bind_def)
  next
    case (Inr out)
    show ?thesis
    proof (cases "json_parse env out")
      case (Inl m)
      with Resolves Inr assms show ?thesis
        by (simp add: delegatedAttempt_def get_truthy bind_def)
    next
      case parsed: (Inr parsed)
      with Resolves Inr assms show ?thesis
        by (cases parsed) (simp_all add: delegatedAttempt_def get_truthy bind_def Let_def)
    qed
  qed
qed (simp_all add: delegatedAttempt_def get_truthy bind_def assms)

text \<open>
  What \<^verbatim>\<open>generate\<close> absorbs. When the call \<^verbatim>\<open>client.agents.create(...)\<close> does not throw, every
  failure of \<open>delegatedFailure\<close> makes \<^verbatim>\<open>generate\<close> return what \<^verbatim>\<open>generateFallback\<close> returns,
  and an error that leaves \<^verbatim>\<open>generate\<close> is the error of \<^verbatim>\<open>generateFallback\<close> itself.
\<close>

lemma generate_absorbs_failures:
  assumes "\<not> (client env \<and> st = None \<and> throwsSync (agents_create env))"
  shows "(delegatedFailure env st r \<longrightarrow> fst (generate env st r) = generateFallback r)
       \<and> (\<forall>e. fst (generate env st r) = Inl e \<longrightarrow> generateFallback r = Inl e)"
proof (cases "client env")
  case False
  then have "fst (generate env st r) = generateFallback r"
    by (simp add: generate_def generateWithOpenAI_def ensureAgent_def)
  then show ?thesis by simp
next
  case True
  define created where
    "created = (case st of Some a \<Rightarrow> Resolves a | None \<Rightarrow> agents_create env)"
  show ?thesis
  proof (cases created)
    case (Throws e)
    with assms True show ?thesis by (cases st) (simp_all add: created_def)
  next
    case (Rejects e)
    then have "fst (generate env st r) = generateFallback r"
      using True
      by (cases st) (simp_all add: created_def generate_def generateWithOpenAI_def ensureAgent_def)
    then show ?thesis by simp
  next
    case (Resolves agent)
    then have ens: "fst (ensureAgent env st) = Inr agent"
      using True by (cases st) (simp_all add: created_def ensureAgent_def)
    show ?thesis
    proof (cases "truthy agent")
      case False
      with ens have "fst (generate env st r) = generateFallback r"
        by (cases "ensureAgent env st") (simp add: generate_def generateWithOpenAI_def)
      then show ?thesis by simp
    next
      case agent: True
      have fail: "delegatedFailure env st r \<longleftrightarrow>
          (case delegatedAttempt env agent r of Inl e \<Rightarrow> True | Inr p \<Rightarrow> False)"
        using True Resolves agent
        by (simp add: delegatedFailure_def created_def delegatedAttempt_failure)
      show ?thesis
      proof (cases "delegatedAttempt env agent r")
        case (Inl e)
        with ens agent have "fst (generate env st r) = generateFallback r"
          by (cases "ensureAgent env st") (simp add: generate_def generateWithOpenAI_def)
        then show ?thesis by simp
      next
        case (Inr p)
        with ens agent have "fst (generate env st r) = Inr p"
          by (cases "ensureAgent env st") (simp add: generate_def generateWithOpenAI_def)
        with fail Inr show ?thesis by simp
      qed
    qed
  qed
qed

text \<open>
  JSON that can be read but is off the schema is not a failure for the code. The response is
  \<^verbatim>\<open>{"steps":"Upgrade lodash"}\<close>: \<^verbatim>\<open>steps\<close> is not an array, so the delegated path returns a
  plan without steps, and \<^verbatim>\<open>generate\<close> returns it and not the three steps of the fallback.
\<close>

lemma generate_accepts_off_schema:
  "fst (generate offSchema None oneIssueReport)
     = Inr \<lparr>steps = [], noAction = True, source = ''openai''\<rparr>
   \<and> generateFallback oneIssueReport
     = Inr \<lparr>steps = [JStr ''Resolve High vulnerabilities first (lodash).'',
                     JStr ''Add automated dependency updates (Dependabot, Renovate) and enforce Snyk scans in CI.'',
                     JStr ''Re-run `snyk test` after applying fixes to confirm a clean report.''],
             noAction = False, source = ''fallback''\<rparr>
   \<and> fst (generate offSchema None oneIssueReport) \<noteq> generateFallback oneIssueReport"
proof -
  have a: "fst (generate offSchema None oneIssueReport)
     = Inr \<lparr>steps = [], noAction = True, source = ''openai''\<rparr>"
    by code_simp
  have b: "generateFallback oneIssueReport
     = Inr \<lparr>steps = [JStr ''Resolve High vulnerabilities first (lodash).'',
                     JStr ''Add automated dependency updates (Dependabot, Renovate) and enforce Snyk scans in CI.'',
                     JStr ''Re-run `snyk test` after applying fixes to confirm a clean report.''],
             noAction = False, source = ''fallback''\<rparr>"
    by code_simp
  have "fst (generate offSchema None oneIssueReport) \<noteq> generateFallback oneIssueReport"
    unfolding a b by simp
  with a b show ?thesis by blast
qed

text \<open>
  C9 fails on the code. The creation of the agent is a failure the claim names, and
  \<^verbatim>\<open>ensureAgent\<close> catches it only when the promise of \<^verbatim>\<open>client.agents.create(...)\<close> rejects.
  When the call itself throws, the error leaves \<^verbatim>\<open>ensureAgent\<close>, which \<^verbatim>\<open>generateWithOpenAI\<close>
  awaits before its \<^verbatim>\<open>try\<close>, and so it leaves \<^verbatim>\<open>generate\<close>: the caller gets the error and
  not the three steps of the fallback.
\<close>

theorem generate_create_throws:
  "delegatedFailure createThrows None oneIssueReport
   \<and> fst (generate createThrows None oneIssueReport) = Inl createError
   \<and> generateFallback oneIssueReport
     = Inr \<lparr>steps = [JStr ''Resolve High vulnerabilities first (lodash).'',
                     JStr ''Add automated dependency updates (Dependabot, Renovate) and enforce Snyk scans in CI.'',
                     JStr ''Re-run `snyk test` after applying fixes to confirm a clean report.''],
             noAction = False, source = ''fallback''\<rparr>"
proof -
  have a: "delegatedFailure createThrows None oneIssueReport"
    by (simp add: delegatedFailure_def createThrows_def)
  have b: "fst (generate createThrows None oneIssueReport) = Inl createError"
    by (simp add: generate_def generateWithOpenAI_def ensureAgent_def createThrows_def)
  have c: "generateFallback oneIssueReport
     = Inr \<lparr>steps = [JStr ''Resolve High vulnerabilities first (lodash).'',
                     JStr ''Add automated dependency updates (Dependabot, Renovate) and enforce Snyk scans in CI.'',
                     JStr ''Re-run `snyk test` after applying fixes to confirm a clean report.''],
             noAction = False, source = ''fallback''\<rparr>"
    by code_simp
  from a b c show ?thesis by blast
qed

theorem generate_create_throws_witness:
  "fst (generate createThrows None oneIssueReport) \<noteq> generateFallback oneIssueReport"
  using generate_create_throws by simp

section \<open>The severity counters\<close>

lemma get_Inr: "get v k = Inr x \<Longrightarrow> x = getq v k"
  by (cases v) auto

lemma lookup_assign: "lookup (assign cs k v) k' = (if k' = k then v else lookup cs k')"
  by (induction cs) auto

lemma keys_assign: "k' \<in> fst ` set cs \<Longrightarrow> k' \<in> fst ` set (assign cs k v)"
proof (induction cs)
  case Nil
  then show ?case by simp
next
  case (Cons a cs)
  obtain ka va where a: "a = (ka, va)" by (cases a)
  show ?case
  proof (cases "ka = k")
    case True
    with Cons.prems a show ?thesis by simp
  next
    case False
    with Cons a show ?thesis by auto
  qed
qed

lemma countIssue_step:
  assumes "countIssue cs item = Inr cs'"
    and "k \<in> fst ` set cs" and "lookup cs k = JNum n"
  shows "k \<in> fst ` set cs'"
    and "lookup cs' k = JNum (n + (if countsAs k (getq item ''severity'') then 1 else 0))"
proof -
  from assms(1) obtain s where s: "get item ''severity'' = Inr s"
    by (auto simp: countIssue_def bind_def split: sum.splits)
  then have sv: "s = getq item ''severity''" by (rule get_Inr)
  have "k \<in> fst ` set cs'
      \<and> lookup cs' k = JNum (n + (if countsAs k s then 1 else 0))"
  proof (cases "truthy s")
    case False
    with assms s show ?thesis by (simp add: countIssue_def bind_def countsAs_def)
  next
    case True
    with assms(1) s obtain key where key: "js_String s = Inr key"
      by (auto simp: countIssue_def bind_def split: sum.splits)
    from True key have ca: "countsAs k s \<longleftrightarrow> key = k" by (auto simp: countsAs_def)
    from assms(1) s True key
    consider "cs' = cs" and "key \<noteq> k"
      | "key = k" and "cs' = assign cs k (plusOne (lookup cs k))"
      | v where "key \<noteq> k" and "cs' = assign cs key v"
      using assms(2)
      by (cases "key = k") (auto simp: countIssue_def bind_def split: option.splits if_splits)
    then show ?thesis
    proof cases
      case 1
      with assms(2,3) ca show ?thesis by simp
    next
      case 2
      with assms(2,3) ca show ?thesis by (simp add: lookup_assign keys_assign)
    next
      case 3
      with assms(2,3) ca show ?thesis by (simp add: lookup_assign keys_assign)
    qed
  qed
  then show "k \<in> fst ` set cs'"
    and "lookup cs' k = JNum (n + (if countsAs k (getq item ''severity'') then 1 else 0))"
    by (simp_all add: sv)
qed

lemma foldM_countIssue:
  assumes "foldM countIssue cs items = Inr cs'"
    and "k \<in> fst ` set cs" and "lookup cs k = JNum n"
  shows "lookup cs' k
     = JNum (n + int (length (filter (\<lambda>item. countsAs k (getq item ''severity'')) items)))"
  using assms
proof (induction items arbitrary: cs n)
  case Nil
  then show ?case by simp
next
  case (Cons item items)
  from Cons.prems(1) obtain cs1 where c1: "countIssue cs item = Inr cs1"
    and rest: "foldM countIssue cs1 items = Inr cs'"
    by (auto simp: bind_def split: sum.splits)
  note step = countIssue_step [OF c1 Cons.prems(2,3)]
  from Cons.IH [OF rest step] show ?case by simp
qed

lemma formatIssue_severity:
  assumes "formatIssue item = Inr fi"
  shows "getq fi ''severity'' = getq item ''severity''"
  using assms by (cases item) (auto simp: formatIssue_def bind_def)

lemma mapM_formatIssue_severity:
  assumes "mapM formatIssue items = Inr fis"
  shows "map (\<lambda>fi. getq fi ''severity'') fis = map (\<lambda>item. getq item ''severity'') items"
  using assms
proof (induction items arbitrary: fis)
  case Nil
  then show ?case by simp
next
  case (Cons item items)
  then show ?case
    by (auto simp: bind_def formatIssue_severity split: sum.splits)
qed

lemma recognized_sum:
  "(\<Sum>k\<leftarrow>severityOrder. length (filter (\<lambda>x. countsAs k (f x)) xs))
     = length (filter (\<lambda>x. recognized (f x)) xs)"
  by (induction xs) (auto simp: severityOrder_def recognized_def countsAs_def)

lemma length_filter_map_eq:
  assumes "map f xs = map g ys"
  shows "length (filter (\<lambda>x. P (f x)) xs) = length (filter (\<lambda>y. P (g y)) ys)"
proof -
  have "length (filter (\<lambda>x. P (f x)) xs) = length (filter P (map f xs))"
    by (simp add: filter_map comp_def)
  also have "\<dots> = length (filter P (map g ys))" by (simp add: assms)
  also have "\<dots> = length (filter (\<lambda>y. P (g y)) ys)" by (simp add: filter_map comp_def)
  finally show ?thesis .
qed

lemma countsAs_string: "is_string v \<Longrightarrow> k \<noteq> [] \<Longrightarrow> countsAs k v \<longleftrightarrow> v = JStr k"
  by (cases v) (auto simp: countsAs_def js_String_def)

lemma countsAs_nullish: "nullish v \<Longrightarrow> \<not> countsAs k v"
  by (cases v) (auto simp: countsAs_def)

text \<open>
  What the loop over the issues computes. Each of the four counters of \<^verbatim>\<open>summary\<close> is the
  number of issues of the report whose severity counts for it, and the four add up to the
  number of issues with a severity that counts for one of them. Every raw issue is in the
  report, counted or not.
\<close>

lemma summary_counts:
  assumes "formatSnykPayload payload repoUrl snykCommand = Inr report"
  shows "(\<forall>k \<in> set severityOrder.
            severityCount report k = JNum (int (issuesWith (countsAs k) report)))
       \<and> (\<Sum>k\<leftarrow>severityOrder. issuesWith (countsAs k) report) = issuesWith recognized report
       \<and> length (issuesOf report) = length (rawIssues payload)"
proof -
  from assms obtain counters fis fls where
      c: "foldM countIssue counters0 (rawIssues payload) = Inr counters"
    and f: "mapM formatIssue (rawIssues payload) = Inr fis"
    and summ: "getq report ''summary'' = JObj counters"
    and iss: "getq report ''issues'' = JArr fis"
    by (auto simp: formatSnykPayload_def Let_def bind_def split: sum.splits)
  have sev: "map (\<lambda>fi. getq fi ''severity'') fis
               = map (\<lambda>item. getq item ''severity'') (rawIssues payload)"
    by (rule mapM_formatIssue_severity [OF f])
  have cnt: "issuesWith P report
               = length (filter (\<lambda>item. P (getq item ''severity'')) (rawIssues payload))" for P
    unfolding issuesWith_def issuesOf_def iss using length_filter_map_eq [OF sev] by simp
  have one: "severityCount report k = JNum (int (issuesWith (countsAs k) report))"
    if k: "k \<in> set severityOrder" for k
  proof -
    from k have k0: "k \<in> fst ` set counters0" and z: "lookup counters0 k = JNum 0"
      by (auto simp: counters0_def severityOrder_def)
    from foldM_countIssue [OF c k0 z] show ?thesis
      by (simp add: severityCount_def summ cnt)
  qed
  have len: "length (issuesOf report) = length (rawIssues payload)"
    using sev by (simp add: issuesOf_def iss) (metis length_map)
  have total: "(\<Sum>k\<leftarrow>severityOrder. issuesWith (countsAs k) report) = issuesWith recognized report"
    unfolding issuesWith_def by (rule recognized_sum)
  from one len total show ?thesis by blast
qed

text \<open>
  When the severity of every issue is a string or is missing, a severity counts for \<open>k\<close>
  exactly when it is \<open>k\<close>, and each counter is the number of issues with that severity.
\<close>

lemma summary_counts_strings:
  assumes "formatSnykPayload payload repoUrl snykCommand = Inr report"
    and "\<forall>issue \<in> set (issuesOf report).
           is_string (getq issue ''severity'') \<or> nullish (getq issue ''severity'')"
    and "k \<in> set severityOrder"
  shows "severityCount report k = JNum (int (issuesWith ((=) (JStr k)) report))"
proof -
  from assms(3) have ne: "k \<noteq> []" by (auto simp: severityOrder_def)
  have eq: "countsAs k (getq issue ''severity'') \<longleftrightarrow> JStr k = getq issue ''severity''"
    if "issue \<in> set (issuesOf report)" for issue
  proof -
    from assms(2) that
    consider "is_string (getq issue ''severity'')" | "nullish (getq issue ''severity'')"
      by blast
    then show ?thesis
    proof cases
      case 1
      from countsAs_string [OF 1 ne] show ?thesis by auto
    next
      case 2
      with countsAs_nullish [OF 2, of k] show ?thesis
        by (cases "getq issue ''severity''") simp_all
    qed
  qed
  have "filter (\<lambda>issue. countsAs k (getq issue ''severity'')) (issuesOf report)
          = filter (\<lambda>issue. JStr k = getq issue ''severity'') (issuesOf report)"
    by (rule filter_cong) (simp_all add: eq)
  then have "issuesWith (countsAs k) report = issuesWith ((=) (JStr k)) report"
    by (simp add: issuesWith_def)
  moreover from summary_counts [OF assms(1)] assms(3)
  have "severityCount report k = JNum (int (issuesWith (countsAs k) report))" by blast
  ultimately show ?thesis by simp
qed

lemma mixedReport_normalized:
  "formatSnykPayload mixedPayload (JStr ''https://github.com/owner/repo.git'')
     (JStr ''npx snyk test --json'') = Inr mixedReport"
  by code_simp

text \<open>
  C4 fails on the code. The scanner output is \<^verbatim>\<open>{"vulnerabilities":[{"severity":["high"]}]}\<close>.
  The key of \<^verbatim>\<open>counters[item.severity]\<close> is the string of the array, \<^verbatim>\<open>high\<close>, so the test
  against \<^verbatim>\<open>undefined\<close> is passed and \<^verbatim>\<open>high\<close> is 1, while the severity of the one canonical
  issue is the array and not \<^verbatim>\<open>high\<close>: no issue of the report has that severity, and the
  planner, which compares with \<^verbatim>\<open>===\<close>, makes no step for \<^verbatim>\<open>high\<close>.
\<close>

theorem summary_counts_array_severity:
  "formatSnykPayload arraySeverityPayload (JStr ''https://github.com/owner/repo.git'')
     (JStr ''npx snyk test --json'') = Inr arraySeverityReport
   \<and> severityCount arraySeverityReport ''high'' = JNum 1
   \<and> issuesWith ((=) (JStr ''high'')) arraySeverityReport = 0
   \<and> length (issuesOf arraySeverityReport) = 1
   \<and> generateFallback arraySeverityReport
     = Inr \<lparr>steps = map JStr closingSteps, noAction = False, source = ''fallback''\<rparr>"
proof -
  have "formatSnykPayload arraySeverityPayload (JStr ''https://github.com/owner/repo.git'')
     (JStr ''npx snyk test --json'') = Inr arraySeverityReport"
    by code_simp
  moreover have "severityCount arraySeverityReport ''high'' = JNum 1" by code_simp
  moreover have "issuesWith ((=) (JStr ''high'')) arraySeverityReport = 0" by code_simp
  moreover have "length (issuesOf arraySeverityReport) = 1" by code_simp
  moreover have "generateFallback arraySeverityReport
     = Inr \<lparr>steps = map JStr closingSteps, noAction = False, source = ''fallback''\<rparr>"
    by code_simp
  ultimately show ?thesis by blast
qed

theorem summary_counts_array_severity_witness:
  "severityCount arraySeverityReport ''high''
     \<noteq> JNum (int (issuesWith ((=) (JStr ''high'')) arraySeverityReport))"
  using summary_counts_array_severity by simp

section \<open>The canonical issue\<close>

text \<open>
  C7, as the code has it. In the canonical issue, \<^verbatim>\<open>upgradePath\<close> is the raw value when that
  is truthy and the empty list otherwise, so a missing one gives the empty list; \<^verbatim>\<open>from\<close> is
  the raw value as it is, so a missing one stays \<^verbatim>\<open>undefined\<close>; \<^verbatim>\<open>url\<close> is the raw
  \<^verbatim>\<open>url\<close> when truthy, else the first entry of \<^verbatim>\<open>identifiers.url\<close> when truthy, else \<^verbatim>\<open>null\<close>.
\<close>

theorem formatIssue_defaults:
  assumes "formatIssue item = Inr issue"
  shows "getq issue ''from'' = getq item ''from''
       \<and> getq issue ''upgradePath''
           = (if truthy (getq item ''upgradePath'') then getq item ''upgradePath'' else JArr [])
       \<and> getq issue ''url''
           = (if truthy (getq item ''url'') then getq item ''url''
              else if truthy (index0q (getq (getq item ''identifiers'') ''url''))
                   then index0q (getq (getq item ''identifiers'') ''url'')
                   else JNull)
       \<and> index0q (JArr []) = JUndefined
       \<and> index0q (JArr (first # others)) = first"
  using assms by (cases item) (auto simp: formatIssue_def bind_def js_or_def)

theorem formatIssue_defaults_witness:
  "formatIssue identifiersIssue = Inr identifiersIssueFormatted
   \<and> getq identifiersIssueFormatted ''from'' = JUndefined
   \<and> getq identifiersIssueFormatted ''upgradePath'' = JArr []
   \<and> getq identifiersIssueFormatted ''url'' = JStr ''https://snyk.io/vuln/2''"
proof -
  have r: "formatIssue identifiersIssue = Inr identifiersIssueFormatted" by code_simp
  have "getq identifiersIssue ''from'' = JUndefined"
    and "\<not> truthy (getq identifiersIssue ''upgradePath'')"
    and "\<not> truthy (getq identifiersIssue ''url'')"
    and "index0q (getq (getq identifiersIssue ''identifiers'') ''url'') = JStr ''https://snyk.io/vuln/2''"
    by (simp_all add: identifiersIssue_def)
  with formatIssue_defaults [OF r] r show ?thesis by simp
qed

text \<open>
  C7 as stated fails for \<^verbatim>\<open>from\<close>: the raw issue \<^verbatim>\<open>{"id":"SNYK-JS-LODASH-1"}\<close> has none, and
  the canonical issue has \<^verbatim>\<open>undefined\<close> there, not the empty list.
\<close>

theorem formatIssue_defaults_counterexample:
  "formatIssue bareIssue = Inr bareIssueFormatted
   \<and> getq bareIssue ''from'' = JUndefined
   \<and> getq bareIssueFormatted ''from'' = JUndefined
   \<and> getq bareIssueFormatted ''from'' \<noteq> JArr []"
  by (simp add: formatIssue_def bareIssue_def bareIssueFormatted_def bind_def js_or_def)

section \<open>The project name derived from the repository location\<close>

lemma segments_Nil: "segments [] = []"
  by (simp add: segments.simps [of "[]"])

lemma segments_slash: "segments (CHR ''/'' # cs) = segments cs"
  by (simp add: segments.simps [of "CHR ''/'' # cs"] segments.simps [of cs])

lemma segments_char:
  assumes "c \<noteq> CHR ''/''"
  shows "segments (c # cs)
           = (c # takeWhile (\<lambda>x. x \<noteq> CHR ''/'') cs) # segments (dropWhile (\<lambda>x. x \<noteq> CHR ''/'') cs)"
  using assms by (simp add: segments.simps [of "c # cs"])

lemma js_split_pieces:
  "js_split CHR ''/'' cs
     = takeWhile (\<lambda>x. x \<noteq> CHR ''/'') cs
       # (case dropWhile (\<lambda>x. x \<noteq> CHR ''/'') cs of [] \<Rightarrow> [] | x # r \<Rightarrow> js_split CHR ''/'' r)"
  by (induction cs) auto

lemma filter_js_split:
  "filter (\<lambda>p. p \<noteq> []) (js_split CHR ''/'' s) = segments s"
proof (induction s rule: length_induct)
  case (1 s)
  show ?case
  proof (cases s)
    case Nil
    then show ?thesis by (simp add: segments_Nil)
  next
    case (Cons c cs)
    show ?thesis
    proof (cases "c = CHR ''/''")
      case True
      with Cons 1 show ?thesis by (simp add: segments_slash)
    next
      case False
      show ?thesis
      proof (cases "dropWhile (\<lambda>x. x \<noteq> CHR ''/'') cs")
        case Nil
        from False Cons show ?thesis
          by (simp del: js_split.simps
              add: js_split_pieces [of "c # cs"] segments_char segments_Nil Nil)
      next
        case d: (Cons x r)
        then have x: "x = CHR ''/''"
          using hd_dropWhile [of "\<lambda>x. x \<noteq> CHR ''/''" cs] by auto
        have "length r < length s"
          using length_dropWhile_le [of "\<lambda>x. x \<noteq> CHR ''/''" cs] d Cons by simp
        with 1 have "filter (\<lambda>p. p \<noteq> []) (js_split CHR ''/'' r) = segments r" by blast
        with False Cons x show ?thesis
          by (simp del: js_split.simps
              add: js_split_pieces [of "c # cs"] segments_char segments_slash d)
      qed
    qed
  qed
qed

lemma segments_pieces:
  "p \<in> set (segments s) \<Longrightarrow> p \<noteq> [] \<and> CHR ''/'' \<notin> set p"
proof (induction s arbitrary: p rule: length_induct)
  case (1 s)
  show ?case
  proof (cases s)
    case Nil
    with 1 show ?thesis by (simp add: segments_Nil)
  next
    case (Cons c cs)
    show ?thesis
    proof (cases "c = CHR ''/''")
      case True
      with 1(2) Cons have "p \<in> set (segments cs)" by (simp add: segments_slash)
      moreover have "length cs < length s" using Cons by simp
      ultimately show ?thesis using 1(1) by blast
    next
      case False
      have len: "length (dropWhile (\<lambda>x. x \<noteq> CHR ''/'') cs) < length s"
        using length_dropWhile_le [of "\<lambda>x. x \<noteq> CHR ''/''" cs] Cons by simp
      from 1(2) Cons False
      consider "p = c # takeWhile (\<lambda>x. x \<noteq> CHR ''/'') cs"
        | "p \<in> set (segments (dropWhile (\<lambda>x. x \<noteq> CHR ''/'') cs))"
        by (auto simp: segments_char)
      then show ?thesis
      proof cases
        case 1
        with False show ?thesis by (auto dest: set_takeWhileD)
      next
        case 2
        with 1(1) len show ?thesis by blast
      qed
    qed
  qed
qed

text \<open>
  C10. The name derived from a repository location is its last two segments (all of them when
  there are fewer), taken after the trim and the removal of one \<^verbatim>\<open>.git\<close> at the end, joined
  by a slash. With no segment the name is empty, and a payload that names no project then
  gets \<^verbatim>\<open>Unknown project\<close>.
\<close>

theorem deriveRepoName_segments:
  "deriveRepoName (JStr s) = JStr (js_join ''/'' (lastTwo (segments (strip_git (js_trim s)))))
   \<and> (segments (strip_git (js_trim s)) = []
        \<and> \<not> truthy (getq payload ''projectName'')
        \<and> \<not> truthy (index0q (getq payload ''projectNames''))
        \<and> \<not> truthy (getq payload ''displayTargetFile'')
      \<longrightarrow> deriveRepoName (JStr s) = JStr []
          \<and> projectNameOf payload (JStr s) = JStr ''Unknown project'')"
proof -
  have d: "deriveRepoName (JStr s) = JStr (js_join ''/'' (lastTwo (segments (strip_git (js_trim s)))))"
    by (simp add: deriveRepoName_def Let_def filter_js_split lastTwo_def)
  then have "deriveRepoName (JStr s) = JStr []" if "segments (strip_git (js_trim s)) = []"
    using that by (simp add: lastTwo_def)
  then show ?thesis
    using d by (simp add: projectNameOf_def js_or_def)
qed

theorem deriveRepoName_segments_witness:
  "deriveRepoName (JStr '' https://github.com/owner/repo.git '') = JStr ''owner/repo''
   \<and> segments (strip_git (js_trim ''//'')) = []
   \<and> deriveRepoName (JStr ''//'') = JStr []
   \<and> projectNameOf cleanPayload (JStr ''//'') = JStr ''Unknown project''"
proof -
  have a: "js_join ''/'' (lastTwo (segments (strip_git (js_trim '' https://github.com/owner/repo.git ''))))
            = ''owner/repo''"
    by code_simp
  have b: "segments (strip_git (js_trim ''//'')) = []" by code_simp
  have c: "\<not> truthy (getq cleanPayload ''projectName'')"
    "\<not> truthy (index0q (getq cleanPayload ''projectNames''))"
    "\<not> truthy (getq cleanPayload ''displayTargetFile'')"
    by (simp_all add: cleanPayload_def)
  from deriveRepoName_segments [of "'' https://github.com/owner/repo.git ''" cleanPayload] a
  have "deriveRepoName (JStr '' https://github.com/owner/repo.git '') = JStr ''owner/repo''"
    by simp
  moreover from deriveRepoName_segments [of "''//''" cleanPayload] b c
  have "deriveRepoName (JStr ''//'') = JStr []
        \<and> projectNameOf cleanPayload (JStr ''//'') = JStr ''Unknown project''"
    by blast
  ultimately show ?thesis using b by blast
qed

section \<open>The scan handler\<close>

lemma parseAndPlan_Respond:
  assumes "parseAndPlan env u out = Inr ev"
  shows "\<exists>status body. ev = Respond status body \<and> (status = 502 \<or> status = 200)"
  using assms
  by (auto simp: parseAndPlan_def bind_def split: sum.splits if_splits jsval.splits)

lemma parseAndPlan_exec:
  "parseAndPlan (env\<lparr>exec := x\<rparr>) u out = parseAndPlan env u out"
  by (simp add: parseAndPlan_def bind_def split: sum.splits)

lemma parseStage_trace:
  "\<exists>status body. parseStage env dir u out = Respond status body # cleanUpDir dir
      \<and> \<not> isScanFailure (Respond status body)"
proof (cases "parseAndPlan env u out")
  case (Inl err)
  then show ?thesis by (simp add: parseStage_def)
next
  case (Inr ev)
  with parseAndPlan_Respond [OF Inr] show ?thesis by (auto simp: parseStage_def)
qed

lemma cleanUpDir_counts:
  "length (filter ((=) (CleanUpDir dir)) (cleanUpDir dir)) = 1"
  "dir \<noteq> [] \<Longrightarrow> length (filter ((=) (Rm dir)) (cleanUpDir dir)) = 1"
  "filter isRespond (cleanUpDir dir) = []"
  "\<not> list_ex isRejected (cleanUpDir dir)"
  "\<not> list_ex isScanFailure (cleanUpDir dir)"
  by (simp_all add: cleanUpDir_def)

lemma buildHelpfulErrorDetail_string:
  "buildHelpfulErrorDetail (JStr detail)
     = (if js_includes (toLowerCase detail) ''snyk auth''
           \<or> js_includes (toLowerCase detail) ''authentication''
        then JStr (js_trim (detail @ tokenHint)) else JStr detail)"
  by (cases "detail = []") (simp_all add: buildHelpfulErrorDetail_def js_or_def toLowerCase_def)

text \<open>
  C5. The scanner has exited with a code other than zero, so \<^verbatim>\<open>execAsync\<close> rejects with
  \<open>err\<close>. When the standard output read off \<open>err\<close> is not empty the handler goes on with it,
  and what it does is what it does when the scanner exits with zero and the same output.
  When it is empty the handler cleans up and answers 500 \<^verbatim>\<open>Snyk scan failed.\<close> with the
  detail made of the standard error, or else of the message. That answer is given in no
  other case. The detail gets the hint about \<^verbatim>\<open>SNYK_TOKEN\<close> when, in lower case, it contains
  \<^verbatim>\<open>snyk auth\<close> or \<^verbatim>\<open>authentication\<close>.
\<close>

theorem nonzero_exit:
  assumes "truthy (body_repoUrl env)" and "is_string (body_repoUrl env)"
    and "mkdtemp env = Inr dir" and "clone env = Inr ()" and "exec env = ExecErr err"
  shows "scanHandler env
           = (if truthy (errStream err ''stdout'' 1)
              then parseStage env dir (body_repoUrl env) (errStream err ''stdout'' 1)
              else cleanUpDir dir
                   @ [Respond 500
                        [(''error'', JStr ''Snyk scan failed.''),
                         (''details'', buildHelpfulErrorDetail
                            (js_or (errStream err ''stderr'' 2) (lookup err ''message'')))]])
       \<and> (list_ex isScanFailure (scanHandler env) \<longleftrightarrow> \<not> truthy (errStream err ''stdout'' 1))
       \<and> (\<forall>out. errStream err ''stdout'' 1 = JStr out \<and> out \<noteq> []
                 \<longrightarrow> scanHandler env = scanHandler (env\<lparr>exec := ExecOk out\<rparr>))
       \<and> (\<forall>detail. buildHelpfulErrorDetail (JStr detail)
                 = (if js_includes (toLowerCase detail) ''snyk auth''
                       \<or> js_includes (toLowerCase detail) ''authentication''
                    then JStr (js_trim (detail @ tokenHint)) else JStr detail))"
proof -
  have h: "scanHandler env
           = (if truthy (errStream err ''stdout'' 1)
              then parseStage env dir (body_repoUrl env) (errStream err ''stdout'' 1)
              else cleanUpDir dir
                   @ [Respond 500
                        [(''error'', JStr ''Snyk scan failed.''),
                         (''details'', buildHelpfulErrorDetail
                            (js_or (errStream err ''stderr'' 2) (lookup err ''message'')))]])"
    using assms by (simp add: scanHandler_def Let_def)
  have iff: "list_ex isScanFailure (scanHandler env) \<longleftrightarrow> \<not> truthy (errStream err ''stdout'' 1)"
  proof (cases "truthy (errStream err ''stdout'' 1)")
    case True
    obtain status body where
      "parseStage env dir (body_repoUrl env) (errStream err ''stdout'' 1)
         = Respond status body # cleanUpDir dir"
      and "\<not> isScanFailure (Respond status body)"
      using parseStage_trace by blast
    with True h show ?thesis by (simp add: cleanUpDir_counts del: isScanFailure.simps)
  next
    case False
    with h show ?thesis by (simp add: cleanUpDir_counts)
  qed
  have same: "scanHandler env = scanHandler (env\<lparr>exec := ExecOk out\<rparr>)"
    if "errStream err ''stdout'' 1 = JStr out" and "out \<noteq> []" for out
  proof -
    have "scanHandler (env\<lparr>exec := ExecOk out\<rparr>)
            = parseStage (env\<lparr>exec := ExecOk out\<rparr>) dir (body_repoUrl env) (JStr out)"
      using assms by (simp add: scanHandler_def Let_def)
    also have "\<dots> = parseStage env dir (body_repoUrl env) (JStr out)"
      by (simp add: parseStage_def parseAndPlan_exec)
    finally show ?thesis using h that by simp
  qed
  from h iff same buildHelpfulErrorDetail_string show ?thesis by blast
qed

theorem nonzero_exit_witness:
  "scanHandler foundVulnerabilities = scanHandler (foundVulnerabilities\<lparr>exec := ExecOk mixedText\<rparr>)
   \<and> \<not> list_ex isScanFailure (scanHandler foundVulnerabilities)
   \<and> scanHandler notAuthenticated
       = [CleanUpDir ''/tmp/snyk-scan-Ab12Cd'', Rm ''/tmp/snyk-scan-Ab12Cd'',
          Respond 500
            [(''error'', JStr ''Snyk scan failed.''),
             (''details'', JStr (''Authentication failed. Run `snyk auth`.'' @ tokenHint))]]
   \<and> list_ex isScanFailure (scanHandler notAuthenticated)"
proof -
  define found where
    "found = [(''message'', JStr ''Command failed: npx snyk test --json''),
              (''code'', JNum 1), (''stdout'', JStr mixedText), (''stderr'', JStr [])]"
  define failed where
    "failed = [(''message'', JStr ''Command failed: npx snyk test --json''),
               (''code'', JNum 2), (''stdout'', JStr []),
               (''stderr'', JStr ''Authentication failed. Run `snyk auth`.'')]"
  have a: "truthy (body_repoUrl foundVulnerabilities)"
    "is_string (body_repoUrl foundVulnerabilities)"
    "mkdtemp foundVulnerabilities = Inr ''/tmp/snyk-scan-Ab12Cd''"
    "clone foundVulnerabilities = Inr ()"
    "exec foundVulnerabilities = ExecErr found"
    by (simp_all add: foundVulnerabilities_def found_def)
  have b: "truthy (body_repoUrl notAuthenticated)"
    "is_string (body_repoUrl notAuthenticated)"
    "mkdtemp notAuthenticated = Inr ''/tmp/snyk-scan-Ab12Cd''"
    "clone notAuthenticated = Inr ()"
    "exec notAuthenticated = ExecErr failed"
    by (simp_all add: notAuthenticated_def foundVulnerabilities_def failed_def)
  have out: "errStream found ''stdout'' 1 = JStr mixedText" "mixedText \<noteq> []"
    by (simp_all add: errStream_def js_or_def found_def mixedText_def)
  have none: "\<not> truthy (errStream failed ''stdout'' 1)"
    "js_or (errStream failed ''stderr'' 2) (lookup failed ''message'')
       = JStr ''Authentication failed. Run `snyk auth`.''"
    by (simp_all add: errStream_def js_or_def failed_def)
  have hint: "buildHelpfulErrorDetail (JStr ''Authentication failed. Run `snyk auth`.'')
      = JStr (''Authentication failed. Run `snyk auth`.'' @ tokenHint)"
    by code_simp
  note f = nonzero_exit [OF a]
  from f have "\<forall>out. errStream found ''stdout'' 1 = JStr out \<and> out \<noteq> []
      \<longrightarrow> scanHandler foundVulnerabilities
            = scanHandler (foundVulnerabilities\<lparr>exec := ExecOk out\<rparr>)"
    by blast
  with out have 1: "scanHandler foundVulnerabilities
             = scanHandler (foundVulnerabilities\<lparr>exec := ExecOk mixedText\<rparr>)"
    by blast
  from f have "list_ex isScanFailure (scanHandler foundVulnerabilities)
      \<longleftrightarrow> \<not> truthy (errStream found ''stdout'' 1)"
    by blast
  with out have 2: "\<not> list_ex isScanFailure (scanHandler foundVulnerabilities)"
    by (simp add: mixedText_def)
  note n = nonzero_exit [OF b]
  from n have "scanHandler notAuthenticated
           = (if truthy (errStream failed ''stdout'' 1)
              then parseStage notAuthenticated ''/tmp/snyk-scan-Ab12Cd''
                     (body_repoUrl notAuthenticated) (errStream failed ''stdout'' 1)
              else cleanUpDir ''/tmp/snyk-scan-Ab12Cd''
                   @ [Respond 500
                        [(''error'', JStr ''Snyk scan failed.''),
                         (''details'', buildHelpfulErrorDetail
                            (js_or (errStream failed ''stderr'' 2) (lookup failed ''message'')))]])"
    by blast
  with none hint have 3: "scanHandler notAuthenticated
       = [CleanUpDir ''/tmp/snyk-scan-Ab12Cd'', Rm ''/tmp/snyk-scan-Ab12Cd'',
          Respond 500
            [(''error'', JStr ''Snyk scan failed.''),
             (''details'', JStr (''Authentication failed. Run `snyk auth`.'' @ tokenHint))]]"
    by (simp add: cleanUpDir_def)
  from n have "list_ex isScanFailure (scanHandler notAuthenticated)
      \<longleftrightarrow> \<not> truthy (errStream failed ''stdout'' 1)"
    by blast
  with none have 4: "list_ex isScanFailure (scanHandler notAuthenticated)" by blast
  from 1 2 3 4 show ?thesis by blast
qed

text \<open>
  C8. Once the request has a valid \<^verbatim>\<open>repoUrl\<close> and \<^verbatim>\<open>fs.mkdtemp\<close> has made the directory,
  whatever the clone, the scanner, \<^verbatim>\<open>JSON.parse\<close>, the normalizer and the planner do, the
  handler calls \<^verbatim>\<open>cleanUpDir\<close> on the directory exactly once, which removes it with \<^verbatim>\<open>fs.rm\<close>
  (the path being non-empty), sends exactly one response, and its promise does not reject.
\<close>

theorem cleanup_always:
  assumes "truthy (body_repoUrl env)" and "is_string (body_repoUrl env)"
    and "mkdtemp env = Inr dir"
  shows "length (filter ((=) (CleanUpDir dir)) (scanHandler env)) = 1
       \<and> (dir \<noteq> [] \<longrightarrow> length (filter ((=) (Rm dir)) (scanHandler env)) = 1)
       \<and> length (filter isRespond (scanHandler env)) = 1
       \<and> \<not> list_ex isRejected (scanHandler env)"
proof -
  have stage: "length (filter ((=) (CleanUpDir dir)) (parseStage env dir u out)) = 1
       \<and> (dir \<noteq> [] \<longrightarrow> length (filter ((=) (Rm dir)) (parseStage env dir u out)) = 1)
       \<and> length (filter isRespond (parseStage env dir u out)) = 1
       \<and> \<not> list_ex isRejected (parseStage env dir u out)" for u out
  proof -
    obtain status body where "parseStage env dir u out = Respond status body # cleanUpDir dir"
      using parseStage_trace by blast
    then show ?thesis by (simp add: cleanUpDir_counts)
  qed
  show ?thesis
  proof (cases "clone env")
    case (Inl e)
    with assms show ?thesis by (simp add: scanHandler_def Let_def cleanUpDir_counts)
  next
    case (Inr u)
    show ?thesis
    proof (cases "exec env")
      case (ExecOk out)
      with Inr assms stage show ?thesis by (simp add: scanHandler_def Let_def)
    next
      case (ExecErr err)
      show ?thesis
      proof (cases "truthy (errStream err ''stdout'' 1)")
        case True
        with ExecErr Inr assms stage show ?thesis by (simp add: scanHandler_def Let_def)
      next
        case False
        with ExecErr Inr assms show ?thesis
          by (simp add: scanHandler_def Let_def cleanUpDir_counts)
      qed
    qed
  qed
qed

theorem cleanup_always_witness:
  "scanHandler garbledOutput
     = [Respond 500
          [(''error'', JStr ''Unable to parse Snyk output.''),
           (''details'', JStr ''Unexpected token''),
           (''rawOutput'', JStr ''Testing /tmp/repo...'')],
        CleanUpDir ''/tmp/snyk-scan-Ab12Cd'', Rm ''/tmp/snyk-scan-Ab12Cd'']
   \<and> length (filter ((=) (CleanUpDir ''/tmp/snyk-scan-Ab12Cd'')) (scanHandler garbledOutput)) = 1
   \<and> length (filter ((=) (Rm ''/tmp/snyk-scan-Ab12Cd'')) (scanHandler garbledOutput)) = 1
   \<and> length (filter isRespond (scanHandler garbledOutput)) = 1
   \<and> \<not> list_ex isRejected (scanHandler garbledOutput)"
proof -
  have a: "truthy (body_repoUrl garbledOutput)"
    "is_string (body_repoUrl garbledOutput)"
    "mkdtemp garbledOutput = Inr ''/tmp/snyk-scan-Ab12Cd''"
    by (simp_all add: garbledOutput_def foundVulnerabilities_def)
  have t: "scanHandler garbledOutput
     = [Respond 500
          [(''error'', JStr ''Unable to parse Snyk output.''),
           (''details'', JStr ''Unexpected token''),
           (''rawOutput'', JStr ''Testing /tmp/repo...'')],
        CleanUpDir ''/tmp/snyk-scan-Ab12Cd'', Rm ''/tmp/snyk-scan-Ab12Cd'']"
    by code_simp
  have "''/tmp/snyk-scan-Ab12Cd'' \<noteq> []" by simp
  with cleanup_always [OF a] t show ?thesis by blast
qed

end
